theory Spec2Isabelle
  imports Complex_Main "HOL-Library.Word"
begin

unbundle bit_operations_syntax

section \<open>Input handler: the camera state and the windowing callbacks\<close>

text \<open>
  The viewer keeps its camera in four program-wide variables of \<^verbatim>\<open>main.cpp\<close>:
  \<^verbatim>\<open>rotation\<close> (a \<^verbatim>\<open>glm::vec2\<close>), \<^verbatim>\<open>zoom\<close>, \<^verbatim>\<open>cursorX\<close> and \<^verbatim>\<open>cursorY\<close>. The callbacks
  registered with GLFW update them.

  The rotation and the cursor positions are modelled as real numbers: the sums and
  differences the cursor callback computes are the exact ones, and their rounding is not
  represented. The zoom is modelled as a single-precision value, with the rounding, the
  infinities and the NaN of its arithmetic, because the scroll callback compares it and
  the outcome of the comparison depends on them.
\<close>

subsection \<open>Floating-point values and the single-precision operations of the zoom\<close>

text \<open>
  A value of an IEEE-754 binary format, \<^verbatim>\<open>float\<close> or \<^verbatim>\<open>double\<close>, is a finite number,
  an infinity or a NaN. The sign of a zero is not represented: no operation of the scroll
  callback tells the two zeros apart.
\<close>

datatype ieee_value = Finite real | PInf | MInf | NaN

text \<open>
  Rounding of a real number to \<^verbatim>\<open>float\<close> (binary32: 24 significant bits, exponents from
  \<open>-126\<close> to \<open>127\<close>), to the nearest value and to the even one of two nearest.
  \<open>float_exponent x\<close> is the largest exponent \<open>e\<close> of the format with \<open>2\<^sup>e \<le> \<bar>x\<bar>\<close>, and
  the least exponent for the numbers below the normal range; the values of the format
  near \<open>x\<close> are the multiples of \<open>2\<^bsup>e - 23\<^esup>\<close>. A result of magnitude \<open>2\<^bsup>128\<^esup>\<close> is out of
  the range and becomes an infinity.
\<close>

fun scale_exp :: "nat \<Rightarrow> int \<Rightarrow> real \<Rightarrow> int" where
  "scale_exp 0 e x = e"
| "scale_exp (Suc n) e x = (if 2 powi e \<le> x then e else scale_exp n (e - 1) x)"

definition float_exponent :: "real \<Rightarrow> int" where
  "float_exponent x = scale_exp 253 127 \<bar>x\<bar>"

definition round_half_even :: "real \<Rightarrow> int" where
  "round_half_even q =
     (let f = \<lfloor>q\<rfloor>; d = q - of_int f
      in if d < 1 / 2 then f else if 1 / 2 < d then f + 1 else if even f then f else f + 1)"

definition round_float :: "real \<Rightarrow> ieee_value" where
  "round_float x =
     (let ulp = 2 powi (float_exponent x - 23);
          r = of_int (round_half_even (x / ulp)) * ulp
      in if 2 powi 128 \<le> r then PInf else if r \<le> - (2 powi 128) then MInf else Finite r)"

text \<open>
  The conversion \<^verbatim>\<open>(float)y\<close> of a \<^verbatim>\<open>double\<close>, the sum of two floats, the quotient of a
  float by a positive finite constant (the callback divides by \<^verbatim>\<open>4.f\<close>), and the
  comparisons \<^verbatim>\<open><\<close> and \<^verbatim>\<open><=\<close>, which are false when an operand is a NaN.
\<close>

fun to_float :: "ieee_value \<Rightarrow> ieee_value" where
  "to_float (Finite x) = round_float x"
| "to_float v = v"

fun fadd :: "ieee_value \<Rightarrow> ieee_value \<Rightarrow> ieee_value" where
  "fadd (Finite x) (Finite y) = round_float (x + y)"
| "fadd NaN b = NaN"
| "fadd a NaN = NaN"
| "fadd PInf MInf = NaN"
| "fadd MInf PInf = NaN"
| "fadd PInf b = PInf"
| "fadd a PInf = PInf"
| "fadd MInf b = MInf"
| "fadd a MInf = MInf"

fun fdiv_pos :: "ieee_value \<Rightarrow> real \<Rightarrow> ieee_value" where
  "fdiv_pos (Finite x) d = round_float (x / d)"
| "fdiv_pos v d = v"

fun fless :: "ieee_value \<Rightarrow> ieee_value \<Rightarrow> bool" where
  "fless (Finite x) (Finite y) = (x < y)"
| "fless (Finite x) PInf = True"
| "fless MInf (Finite y) = True"
| "fless MInf PInf = True"
| "fless a b = False"

fun fle :: "ieee_value \<Rightarrow> ieee_value \<Rightarrow> bool" where
  "fle (Finite x) (Finite y) = (x \<le> y)"
| "fle (Finite x) PInf = True"
| "fle MInf (Finite y) = True"
| "fle MInf PInf = True"
| "fle PInf PInf = True"
| "fle MInf MInf = True"
| "fle a b = False"

subsection \<open>The camera state and the callbacks\<close>

text \<open>
  A \<^verbatim>\<open>glm::vec2\<close> is a pair of scalars; the scalar type is a parameter, as it is of
  \<^verbatim>\<open>glm::vec\<close>.

  Modelled from the spec: GLFW is a collaborator, and its functions are not part of the
  sources. The window is the part of GLFW's state the callbacks read and write: the cursor
  input mode (the drag mode of the spec is the mode in which the cursor is captured,
  \<^verbatim>\<open>GLFW_CURSOR_DISABLED\<close>), the cursor position that \<^verbatim>\<open>glfwGetCursorPos\<close> reports, and the
  close flag. Setting the input mode leaves the reported cursor position as it is.
\<close>

datatype 'a vec2 = Vec2 (vec2_x: 'a) (vec2_y: 'a)

datatype cursor_mode = GLFW_CURSOR_NORMAL | GLFW_CURSOR_HIDDEN | GLFW_CURSOR_DISABLED

record window =
  input_mode_cursor :: cursor_mode
  cursor_pos :: "real \<times> real"
  should_close :: bool

record app =
  rotation :: "real vec2"
  zoom :: ieee_value
  cursorX :: real
  cursorY :: real
  win :: window

text \<open>The constants of \<^verbatim>\<open>glfw3.h\<close> the callbacks compare against.\<close>

definition GLFW_RELEASE :: int where "GLFW_RELEASE = 0"
definition GLFW_PRESS :: int where "GLFW_PRESS = 1"
definition GLFW_MOUSE_BUTTON_LEFT :: int where "GLFW_MOUSE_BUTTON_LEFT = 0"
definition GLFW_KEY_ESCAPE :: int where "GLFW_KEY_ESCAPE = 256"

definition glfwSetInputMode :: "cursor_mode \<Rightarrow> app \<Rightarrow> app" where
  "glfwSetInputMode m st = st\<lparr>win := (win st)\<lparr>input_mode_cursor := m\<rparr>\<rparr>"

definition glfwGetInputMode :: "app \<Rightarrow> cursor_mode" where
  "glfwGetInputMode st = input_mode_cursor (win st)"

definition glfwGetCursorPos :: "app \<Rightarrow> real \<times> real" where
  "glfwGetCursorPos st = cursor_pos (win st)"

definition glfwSetWindowShouldClose :: "bool \<Rightarrow> app \<Rightarrow> app" where
  "glfwSetWindowShouldClose b st = st\<lparr>win := (win st)\<lparr>should_close := b\<rparr>\<rparr>"

text \<open>A window as GLFW creates it: the cursor is free and the close flag is clear.\<close>

definition initial_window :: window where
  "initial_window =
     \<lparr>input_mode_cursor = GLFW_CURSOR_NORMAL, cursor_pos = (0, 0), should_close = False\<rparr>"

text \<open>The initial values of the globals (\<^verbatim>\<open>cursorX\<close> and \<^verbatim>\<open>cursorY\<close> are zero-initialised).\<close>

definition initial_app :: "window \<Rightarrow> app" where
  "initial_app w = \<lparr>rotation = Vec2 0 0, zoom = Finite 40, cursorX = 0, cursorY = 0, win = w\<rparr>"

definition key_callback :: "int \<Rightarrow> int \<Rightarrow> app \<Rightarrow> app" where
  "key_callback key action st =
     (if key = GLFW_KEY_ESCAPE \<and> action = GLFW_PRESS then glfwSetWindowShouldClose True st
      else st)"

definition mouse_button_callback :: "int \<Rightarrow> int \<Rightarrow> app \<Rightarrow> app" where
  "mouse_button_callback button action st =
     (if button \<noteq> GLFW_MOUSE_BUTTON_LEFT then st
      else if action = GLFW_PRESS then
        (let st1 = glfwSetInputMode GLFW_CURSOR_DISABLED st;
             p = glfwGetCursorPos st1
         in st1\<lparr>cursorX := fst p, cursorY := snd p\<rparr>)
      else glfwSetInputMode GLFW_CURSOR_NORMAL st)"

definition cursor_position_callback :: "real \<Rightarrow> real \<Rightarrow> app \<Rightarrow> app" where
  "cursor_position_callback x y st =
     (if glfwGetInputMode st = GLFW_CURSOR_DISABLED then
        st\<lparr>rotation := Vec2 (vec2_x (rotation st) + (x - cursorX st) / 10)
                              (vec2_y (rotation st) + (y - cursorY st) / 10),
           cursorX := x, cursorY := y\<rparr>
      else st)"

text \<open>
  The offsets of a scroll event are \<^verbatim>\<open>double\<close>s. The callback narrows the vertical one
  to \<^verbatim>\<open>float\<close>, divides it by \<^verbatim>\<open>4.f\<close> and adds the quotient to the zoom, all in single
  precision; then it replaces a zoom that compares less than zero by zero.
\<close>

definition scroll_callback :: "ieee_value \<Rightarrow> ieee_value \<Rightarrow> app \<Rightarrow> app" where
  "scroll_callback x y st =
     (let st1 = st\<lparr>zoom := fadd (zoom st) (fdiv_pos (to_float y) 4)\<rparr>
      in if fless (zoom st1) (Finite 0) then st1\<lparr>zoom := Finite 0\<rparr> else st1)"

text \<open>
  The events GLFW dispatches from \<^verbatim>\<open>glfwPollEvents\<close>. A cursor event carries the new
  cursor position, which GLFW stores in the window before it calls the callback.
\<close>

datatype event =
    KeyEvent int int
  | MouseButtonEvent int int
  | CursorPosEvent real real
  | ScrollEvent ieee_value ieee_value

fun dispatch :: "event \<Rightarrow> app \<Rightarrow> app" where
  "dispatch (KeyEvent key action) st = key_callback key action st"
| "dispatch (MouseButtonEvent button action) st = mouse_button_callback button action st"
| "dispatch (CursorPosEvent x y) st =
     cursor_position_callback x y (st\<lparr>win := (win st)\<lparr>cursor_pos := (x, y)\<rparr>\<rparr>)"
| "dispatch (ScrollEvent x y) st = scroll_callback x y st"

fun glfwPollEvents :: "event list \<Rightarrow> app \<Rightarrow> app" where
  "glfwPollEvents [] st = st"
| "glfwPollEvents (e # es) st = glfwPollEvents es (dispatch e st)"

section \<open>Geometry loader\<close>

subsection \<open>Single-precision values and the comparison of vertices\<close>

text \<open>
  The loader copies floats and compares them with \<^verbatim>\<open>==\<close>; it never computes with them.
  A float is therefore modelled by its IEEE-754 binary32 bit pattern, and \<^verbatim>\<open>==\<close> by the
  IEEE comparison: a NaN equals nothing, not even itself, and the two zeros are equal.
\<close>

datatype float32 = Float32 (bits: "32 word")

definition isnan :: "float32 \<Rightarrow> bool" where
  "isnan f = (drop_bit 23 (bits f) AND 0xFF = 0xFF \<and> bits f AND 0x7FFFFF \<noteq> 0)"

definition iszero :: "float32 \<Rightarrow> bool" where
  "iszero f = (bits f AND 0x7FFFFFFF = 0)"

definition float_eq :: "float32 \<Rightarrow> float32 \<Rightarrow> bool" where
  "float_eq a b = (\<not> isnan a \<and> \<not> isnan b \<and> (a = b \<or> iszero a \<and> iszero b))"

text \<open>The constant \<^verbatim>\<open>1.0f\<close>.\<close>

definition one_f :: float32 where
  "one_f = Float32 0x3F800000"

datatype 'a vec4 = Vec4 (vec4_x: 'a) (vec4_y: 'a) (vec4_z: 'a) (vec4_w: 'a)

definition vec2_eq :: "float32 vec2 \<Rightarrow> float32 vec2 \<Rightarrow> bool" where
  "vec2_eq a b = (float_eq (vec2_x a) (vec2_x b) \<and> float_eq (vec2_y a) (vec2_y b))"

definition vec4_eq :: "float32 vec4 \<Rightarrow> float32 vec4 \<Rightarrow> bool" where
  "vec4_eq a b =
     (float_eq (vec4_x a) (vec4_x b) \<and> float_eq (vec4_y a) (vec4_y b) \<and>
      float_eq (vec4_z a) (vec4_z b) \<and> float_eq (vec4_w a) (vec4_w b))"

record Vertex =
  position :: "float32 vec4"
  color :: "float32 vec4"
  texcoord :: "float32 vec2"

text \<open>\<^verbatim>\<open>Vertex::operator==\<close>.\<close>

definition Vertex_eq :: "Vertex \<Rightarrow> Vertex \<Rightarrow> bool" where
  "Vertex_eq v other =
     (vec4_eq (position v) (position other) \<and> vec4_eq (color v) (color other) \<and>
      vec2_eq (texcoord v) (texcoord other))"

subsection \<open>The parsed mesh\<close>

text \<open>
  \<^verbatim>\<open>tinyobj::LoadObj\<close> is a collaborator, not part of the sources; its result is the
  input of the model, with the fields the loader reads: the flat
  arrays \<^verbatim>\<open>attrib.vertices\<close> and \<^verbatim>\<open>attrib.texcoords\<close>, and for every shape the list
  \<^verbatim>\<open>mesh.indices\<close> of \<^verbatim>\<open>index_t\<close> triples of C \<^verbatim>\<open>int\<close>s. The texts it reports are only
  printed and do not reach the lists.
\<close>

record index_t =
  vertex_index :: int
  normal_index :: int
  texcoord_index :: int

record attrib_t =
  attrib_vertices :: "float32 list"
  attrib_texcoords :: "float32 list"

record obj =
  attrib :: attrib_t
  shapes :: "index_t list list"

text \<open>
  The loader reads the arrays with the unchecked \<^verbatim>\<open>operator[]\<close> at an index computed in
  \<^verbatim>\<open>int\<close>. A signed overflow and a read outside the array are undefined behaviour in C++;
  the model stops with an error there.
\<close>

datatype undefined_behaviour = SignedOverflow | OutOfRange

definition ub_bind ::
  "undefined_behaviour + 'a \<Rightarrow> ('a \<Rightarrow> undefined_behaviour + 'b) \<Rightarrow> undefined_behaviour + 'b" where
  "ub_bind m f = (case m of Inl e \<Rightarrow> Inl e | Inr a \<Rightarrow> f a)"

definition int_in_range :: "int \<Rightarrow> bool" where
  "int_in_range i = (- (2 ^ 31) \<le> i \<and> i < 2 ^ 31)"

text \<open>\<^verbatim>\<open>k * i + c\<close> in 32-bit \<^verbatim>\<open>int\<close> arithmetic.\<close>

definition int_mul_add :: "int \<Rightarrow> int \<Rightarrow> int \<Rightarrow> undefined_behaviour + int" where
  "int_mul_add k i c =
     (if \<not> int_in_range (k * i) then Inl SignedOverflow
      else if \<not> int_in_range (k * i + c) then Inl SignedOverflow
      else Inr (k * i + c))"

text \<open>\<^verbatim>\<open>std::vector::operator[]\<close>; a negative \<^verbatim>\<open>int\<close> converts to a huge \<^verbatim>\<open>size_t\<close>.\<close>

definition vector_at :: "'a list \<Rightarrow> int \<Rightarrow> undefined_behaviour + 'a" where
  "vector_at xs i = (if 0 \<le> i \<and> nat i < length xs then Inr (xs ! nat i) else Inl OutOfRange)"

definition fetch :: "'a list \<Rightarrow> int \<Rightarrow> int \<Rightarrow> int \<Rightarrow> undefined_behaviour + 'a" where
  "fetch xs k i c = ub_bind (int_mul_add k i c) (vector_at xs)"

text \<open>The candidate vertex the loop body builds for one face-vertex reference.\<close>

definition candidate :: "attrib_t \<Rightarrow> index_t \<Rightarrow> undefined_behaviour + Vertex" where
  "candidate a ix =
     ub_bind (fetch (attrib_vertices a) 3 (vertex_index ix) 0) (\<lambda>px.
     ub_bind (fetch (attrib_vertices a) 3 (vertex_index ix) 1) (\<lambda>py.
     ub_bind (fetch (attrib_vertices a) 3 (vertex_index ix) 2) (\<lambda>pz.
     ub_bind (fetch (attrib_texcoords a) 2 (texcoord_index ix) 0) (\<lambda>tu.
     ub_bind (fetch (attrib_texcoords a) 2 (texcoord_index ix) 1) (\<lambda>tv.
       Inr \<lparr>position = Vec4 px py pz one_f,
            color = Vec4 one_f one_f one_f one_f,
            texcoord = Vec2 tu tv\<rparr>)))))"

subsection \<open>The map from vertices to indices\<close>

text \<open>
  \<^verbatim>\<open>std::unordered_map<Vertex, uint32_t>\<close> as the list of its entries. A lookup finds the
  entry whose key compares equal to the argument under \<^verbatim>\<open>Vertex::operator==\<close>; the hash only
  selects the bucket, and vertices that compare equal have equal hashes (the standard
  library hashes the two zeros alike). \<^verbatim>\<open>operator[]\<close> inserts a
  value-initialised entry when it finds none.
\<close>

type_synonym uint32_t = "32 word"
type_synonym umap = "(Vertex \<times> uint32_t) list"

fun umap_find :: "umap \<Rightarrow> Vertex \<Rightarrow> uint32_t option" where
  "umap_find [] v = None"
| "umap_find ((k, i) # m) v = (if Vertex_eq k v then Some i else umap_find m v)"

definition umap_count :: "umap \<Rightarrow> Vertex \<Rightarrow> nat" where
  "umap_count m v = (case umap_find m v of None \<Rightarrow> 0 | Some i \<Rightarrow> 1)"

fun umap_assign :: "umap \<Rightarrow> Vertex \<Rightarrow> uint32_t \<Rightarrow> umap" where
  "umap_assign [] v n = [(v, n)]"
| "umap_assign ((k, i) # m) v n =
     (if Vertex_eq k v then (k, n) # m else (k, i) # umap_assign m v n)"

definition umap_index :: "umap \<Rightarrow> Vertex \<Rightarrow> umap \<times> uint32_t" where
  "umap_index m v = (case umap_find m v of None \<Rightarrow> (umap_assign m v 0, 0) | Some i \<Rightarrow> (m, i))"

subsection \<open>\<^verbatim>\<open>loadModel\<close>\<close>

text \<open>
  The program-wide lists \<^verbatim>\<open>vertices\<close> and \<^verbatim>\<open>indices\<close>. \<^verbatim>\<open>loadModel\<close> appends to them; the
  map \<^verbatim>\<open>uniqueVertices\<close> is local to one call.
\<close>

record model =
  vertices :: "Vertex list"
  indices :: "uint32_t list"

definition loadModel_body :: "Vertex \<Rightarrow> umap \<times> model \<Rightarrow> umap \<times> model" where
  "loadModel_body vertex s =
     (let (uniqueVertices, g) = s;
          (uniqueVertices, g) =
            (if umap_count uniqueVertices vertex = 0 then
               (umap_assign uniqueVertices vertex (word_of_nat (length (vertices g))),
                g\<lparr>vertices := vertices g @ [vertex]\<rparr>)
             else (uniqueVertices, g));
          (uniqueVertices, i) = umap_index uniqueVertices vertex
      in (uniqueVertices, g\<lparr>indices := indices g @ [i]\<rparr>))"

fun loadModel_indices ::
  "attrib_t \<Rightarrow> index_t list \<Rightarrow> umap \<times> model \<Rightarrow> undefined_behaviour + umap \<times> model" where
  "loadModel_indices a [] s = Inr s"
| "loadModel_indices a (ix # ixs) s =
     ub_bind (candidate a ix) (\<lambda>vertex. loadModel_indices a ixs (loadModel_body vertex s))"

fun loadModel_shapes ::
  "attrib_t \<Rightarrow> index_t list list \<Rightarrow> umap \<times> model \<Rightarrow> undefined_behaviour + umap \<times> model" where
  "loadModel_shapes a [] s = Inr s"
| "loadModel_shapes a (shape # shs) s =
     ub_bind (loadModel_indices a shape s) (loadModel_shapes a shs)"

definition loadModel :: "obj \<Rightarrow> model \<Rightarrow> undefined_behaviour + model" where
  "loadModel ob g =
     ub_bind (loadModel_shapes (attrib ob) (shapes ob) ([], g)) (\<lambda>s. Inr (snd s))"

text \<open>The lists as they are when \<^verbatim>\<open>main\<close> calls \<^verbatim>\<open>loadModel\<close>.\<close>

definition empty_model :: model where
  "empty_model = \<lparr>vertices = [], indices = []\<rparr>"

text \<open>
  The face-vertex stream of a mesh: the candidates of all references, in file order.
\<close>

fun candidates :: "attrib_t \<Rightarrow> index_t list \<Rightarrow> undefined_behaviour + Vertex list" where
  "candidates a [] = Inr []"
| "candidates a (ix # ixs) =
     ub_bind (candidate a ix) (\<lambda>c. ub_bind (candidates a ixs) (\<lambda>cs. Inr (c # cs)))"

text \<open>
  The number of distinct elements of a list under a comparison \<open>eq\<close>, counted the way
  \<^const>\<open>remdups\<close> does: an element counts unless a later one compares equal to it. The
  number of distinct (position, texcoord) combinations of a stream is this number for the
  comparison of the two attributes.
\<close>

fun count_distinct :: "('a \<Rightarrow> 'a \<Rightarrow> bool) \<Rightarrow> 'a list \<Rightarrow> nat" where
  "count_distinct eq [] = 0"
| "count_distinct eq (c # cs) = (if list_ex (eq c) cs then 0 else 1) + count_distinct eq cs"

definition same_attributes :: "Vertex \<Rightarrow> Vertex \<Rightarrow> bool" where
  "same_attributes c d = (vec4_eq (position c) (position d) \<and> vec2_eq (texcoord c) (texcoord d))"

definition distinct_combinations :: "Vertex list \<Rightarrow> nat" where
  "distinct_combinations cs = count_distinct same_attributes cs"

text \<open>
  The number of distinct (position, texcoord) combinations that a stream references is
  the number of different pairs of a position and a texture coordinate among its
  candidates. Two floats are the same number when their bit patterns are the same or
  both are zeros; \<open>canonical\<close> takes the two zeros to one of them.
\<close>

definition canonical :: "float32 \<Rightarrow> float32" where
  "canonical f = (if iszero f then Float32 0 else f)"

definition attribute_pair :: "Vertex \<Rightarrow> float32 vec4 \<times> float32 vec2" where
  "attribute_pair c =
     (Vec4 (canonical (vec4_x (position c))) (canonical (vec4_y (position c)))
           (canonical (vec4_z (position c))) (canonical (vec4_w (position c))),
      Vec2 (canonical (vec2_x (texcoord c))) (canonical (vec2_y (texcoord c))))"

definition combination_count :: "Vertex list \<Rightarrow> nat" where
  "combination_count cs = card (set (map attribute_pair cs))"

text \<open>
  The elements of a list that no earlier element (and no key of \<open>ks\<close>) compares equal to,
  in the order of their first occurrence.
\<close>

fun first_seen :: "('a \<Rightarrow> 'a \<Rightarrow> bool) \<Rightarrow> 'a list \<Rightarrow> 'a list \<Rightarrow> 'a list" where
  "first_seen eq ks [] = []"
| "first_seen eq ks (c # cs) =
     (if list_ex (\<lambda>k. eq k c) ks then first_seen eq ks cs else c # first_seen eq (ks @ [c]) cs)"

text \<open>
  A reference can be read without undefined behaviour when its position and its texture
  coordinate lie inside the arrays and the offsets fit an \<^verbatim>\<open>int\<close>.
\<close>

definition reference_in_range :: "attrib_t \<Rightarrow> index_t \<Rightarrow> bool" where
  "reference_in_range a ix =
     (0 \<le> vertex_index ix \<and> 3 * vertex_index ix + 2 < int (length (attrib_vertices a)) \<and>
      3 * vertex_index ix + 2 < 2 ^ 31 \<and>
      0 \<le> texcoord_index ix \<and> 2 * texcoord_index ix + 1 < int (length (attrib_texcoords a)) \<and>
      2 * texcoord_index ix + 1 < 2 ^ 31)"

text \<open>A vertex has a NaN when one of its ten floats is one.\<close>

definition has_nan :: "Vertex \<Rightarrow> bool" where
  "has_nan v =
     (isnan (vec4_x (position v)) \<or> isnan (vec4_y (position v)) \<or>
      isnan (vec4_z (position v)) \<or> isnan (vec4_w (position v)) \<or>
      isnan (vec4_x (color v)) \<or> isnan (vec4_y (color v)) \<or>
      isnan (vec4_z (color v)) \<or> isnan (vec4_w (color v)) \<or>
      isnan (vec2_x (texcoord v)) \<or> isnan (vec2_y (texcoord v)))"

subsection \<open>Invariants of the loop\<close>

text \<open>
  Every index stored in the map or in the index list points into the vertex list.
\<close>

definition in_bounds :: "umap \<times> model \<Rightarrow> bool" where
  "in_bounds s =
     (list_all (\<lambda>e. unat (snd e) < length (vertices (snd s))) (fst s) \<and>
      list_all (\<lambda>i. unat i < length (vertices (snd s))) (indices (snd s)))"

text \<open>
  After the references \<open>cs\<close>: every key without a NaN is stored in the vertex list at its
  index, and the index written for a reference without a NaN leads to a vertex that
  compares equal to the reference's candidate.
\<close>

definition faithful :: "Vertex list \<Rightarrow> umap \<times> model \<Rightarrow> bool" where
  "faithful cs s =
     (length (indices (snd s)) = length cs \<and>
      (\<forall>e \<in> set (fst s). Vertex_eq (fst e) (fst e) \<longrightarrow>
         unat (snd e) < length (vertices (snd s)) \<and> vertices (snd s) ! unat (snd e) = fst e) \<and>
      (\<forall>j < length cs. Vertex_eq (cs ! j) (cs ! j) \<longrightarrow>
         unat (indices (snd s) ! j) < length (vertices (snd s)) \<and>
         Vertex_eq (vertices (snd s) ! unat (indices (snd s) ! j)) (cs ! j)))"

subsection \<open>Sample meshes\<close>

definition zero_f :: float32 where
  "zero_f = Float32 0"

definition nan_f :: float32 where
  "nan_f = Float32 0x7FC00000"

definition ref :: "int \<Rightarrow> int \<Rightarrow> index_t" where
  "ref v t = \<lparr>vertex_index = v, normal_index = - 1, texcoord_index = t\<rparr>"

text \<open>A white vertex with the texture coordinate (0, 0), as the loader builds it.\<close>

definition white :: "float32 \<Rightarrow> float32 \<Rightarrow> float32 \<Rightarrow> Vertex" where
  "white px py pz =
     \<lparr>position = Vec4 px py pz one_f, color = Vec4 one_f one_f one_f one_f,
      texcoord = Vec2 zero_f zero_f\<rparr>"

text \<open>
  Three triangles around a common corner: nine references, six combinations (the corner
  occurs three times, one further corner twice).
\<close>

definition fan_mesh :: obj where
  "fan_mesh =
     \<lparr>attrib = \<lparr>attrib_vertices =
                  [zero_f, zero_f, zero_f,  one_f, zero_f, zero_f,  zero_f, one_f, zero_f,
                   zero_f, zero_f, one_f,  one_f, one_f, zero_f,  one_f, zero_f, one_f],
                attrib_texcoords = [zero_f, zero_f]\<rparr>,
      shapes = [[ref 0 0, ref 1 0, ref 2 0], [ref 0 0, ref 3 0, ref 4 0],
                [ref 0 0, ref 5 0, ref 1 0]]\<rparr>"

definition fan_stream :: "Vertex list" where
  "fan_stream =
     [white zero_f zero_f zero_f, white one_f zero_f zero_f, white zero_f one_f zero_f,
      white zero_f zero_f zero_f, white zero_f zero_f one_f, white one_f one_f zero_f,
      white zero_f zero_f zero_f, white one_f zero_f one_f, white one_f zero_f zero_f]"

text \<open>One triangle.\<close>

definition triangle_mesh :: obj where
  "triangle_mesh =
     \<lparr>attrib = \<lparr>attrib_vertices =
                  [zero_f, zero_f, zero_f,  one_f, zero_f, zero_f,  zero_f, one_f, zero_f],
                attrib_texcoords = [zero_f, zero_f]\<rparr>,
      shapes = [[ref 0 0, ref 1 0, ref 2 0]]\<rparr>"

definition triangle_vertices :: "Vertex list" where
  "triangle_vertices =
     [white zero_f zero_f zero_f, white one_f zero_f zero_f, white zero_f one_f zero_f]"

text \<open>
  The same triangle in a file without texture coordinates: the parser leaves
  \<^verbatim>\<open>texcoord_index\<close> at \<open>-1\<close>.
\<close>

definition triangle_without_texcoords :: obj where
  "triangle_without_texcoords =
     \<lparr>attrib = \<lparr>attrib_vertices =
                  [zero_f, zero_f, zero_f,  one_f, zero_f, zero_f,  zero_f, one_f, zero_f],
                attrib_texcoords = []\<rparr>,
      shapes = [[ref 0 (- 1), ref 1 (- 1), ref 2 (- 1)]]\<rparr>"

text \<open>Two references, the second to a position whose first coordinate is a NaN.\<close>

definition nan_mesh :: obj where
  "nan_mesh =
     \<lparr>attrib = \<lparr>attrib_vertices = [zero_f, zero_f, zero_f,  nan_f, zero_f, zero_f],
                attrib_texcoords = [zero_f, zero_f]\<rparr>,
      shapes = [[ref 0 0, ref 1 0]]\<rparr>"

text \<open>
  A degenerate triangle: its three corners refer to one position, whose first coordinate
  is a NaN.
\<close>

definition nan_triangle :: obj where
  "nan_triangle =
     \<lparr>attrib = \<lparr>attrib_vertices = [nan_f, zero_f, zero_f],
                attrib_texcoords = [zero_f, zero_f]\<rparr>,
      shapes = [[ref 0 0, ref 0 0, ref 0 0]]\<rparr>"

text \<open>
  A mesh larger than an index can count: \<open>p\<close> positions \<open>(i, 0, 0)\<close> and \<open>t\<close> texture
  coordinates \<open>(j, 0)\<close>, whose first components are the floats with the bit patterns
  \<open>i\<close> and \<open>j\<close>, and \<open>n\<close> references that run through the pairs of a position and a
  texture coordinate row by row. The mesh \<open>huge_mesh\<close> has \<open>2 ^ 32 + 1\<close> references, all to
  different pairs.
\<close>

definition small_f :: "nat \<Rightarrow> float32" where
  "small_f i = Float32 (word_of_nat i)"

definition grid_vertex :: "nat \<Rightarrow> nat \<Rightarrow> Vertex" where
  "grid_vertex i j =
     \<lparr>position = Vec4 (small_f i) zero_f zero_f one_f, color = Vec4 one_f one_f one_f one_f,
      texcoord = Vec2 (small_f j) zero_f\<rparr>"

definition grid_mesh :: "nat \<Rightarrow> nat \<Rightarrow> nat \<Rightarrow> obj" where
  "grid_mesh p t n =
     \<lparr>attrib =
        \<lparr>attrib_vertices = map (\<lambda>q. if q mod 3 = 0 then small_f (q div 3) else zero_f) [0..<3 * p],
         attrib_texcoords = map (\<lambda>q. if q mod 2 = 0 then small_f (q div 2) else zero_f) [0..<2 * t]\<rparr>,
      shapes = [map (\<lambda>k. ref (int (k div t)) (int (k mod t))) [0..<n]]\<rparr>"

definition huge_mesh :: obj where
  "huge_mesh = grid_mesh (2 ^ 16 + 1) (2 ^ 16) (2 ^ 32 + 1)"

section \<open>Texture loader: the channel layout and the device formats\<close>

text \<open>
  \<^verbatim>\<open>loadTexture\<close> takes the requested channel layout as a value of stb_image's anonymous
  enumeration. Modelled from the spec: the header \<^verbatim>\<open>stb_image.h\<close> is not part of the
  sources; its enumerators are the channel counts 1 to 4 of the spec (and 0 for the
  default), and the OpenGL enumerators below have the values of the OpenGL registry.
\<close>

definition STBI_default :: int where "STBI_default = 0"
definition STBI_grey :: int where "STBI_grey = 1"
definition STBI_grey_alpha :: int where "STBI_grey_alpha = 2"
definition STBI_rgb :: int where "STBI_rgb = 3"
definition STBI_rgb_alpha :: int where "STBI_rgb_alpha = 4"

type_synonym GLenum = nat

definition GL_RED :: GLenum where "GL_RED = 0x1903"
definition GL_RGB :: GLenum where "GL_RGB = 0x1907"
definition GL_RGBA :: GLenum where "GL_RGBA = 0x1908"
definition GL_RG :: GLenum where "GL_RG = 0x8227"
definition GL_R8 :: GLenum where "GL_R8 = 0x8229"
definition GL_RG8 :: GLenum where "GL_RG8 = 0x822B"
definition GL_RGB8 :: GLenum where "GL_RGB8 = 0x8051"
definition GL_RGBA8 :: GLenum where "GL_RGBA8 = 0x8058"

text \<open>
  The lambda of \<^verbatim>\<open>loadTexture\<close> that picks the internal format and the transfer format.
  The second component is what the lambda writes to the error stream.
\<close>

definition loadTexture_format :: "int \<Rightarrow> (GLenum \<times> GLenum) \<times> string list" where
  "loadTexture_format c =
     (if c = STBI_rgb_alpha then ((GL_RGBA8, GL_RGBA), [])
      else if c = STBI_rgb then ((GL_RGB8, GL_RGB), [])
      else if c = STBI_grey then ((GL_R8, GL_RED), [])
      else if c = STBI_grey_alpha then ((GL_RG8, GL_RG), [])
      else ((GL_RGBA8, GL_RGBA), [''Invalid format'']))"

section \<open>Camera\<close>

text \<open>
  Modelled from the spec: the functions of the GLM library that \<^verbatim>\<open>camera\<close> calls
  (\<^verbatim>\<open>glm::radians\<close>, \<^verbatim>\<open>glm::perspective\<close>, \<^verbatim>\<open>glm::translate\<close>, \<^verbatim>\<open>glm::rotate\<close> and the
  product of two matrices) are not part of the sources. The spec names them: a perspective
  projection with the depth range [0,1], a translation, and rotations about an axis by an
  angle. They are written here as GLM computes them for a right-handed system with the
  depth range [0,1], which \<^verbatim>\<open>GLM_FORCE_DEPTH_ZERO_TO_ONE\<close> selects, over the real numbers:
  rounding is not represented. A \<^verbatim>\<open>mat4\<close> is the sequence of its four columns, as in GLM.
\<close>

datatype 'a vec3 = Vec3 (vec3_x: 'a) (vec3_y: 'a) (vec3_z: 'a)

datatype 'a mat4 = Mat4 (col0: "'a vec4") (col1: "'a vec4") (col2: "'a vec4") (col3: "'a vec4")

definition vec4_add :: "real vec4 \<Rightarrow> real vec4 \<Rightarrow> real vec4" where
  "vec4_add a b =
     Vec4 (vec4_x a + vec4_x b) (vec4_y a + vec4_y b) (vec4_z a + vec4_z b) (vec4_w a + vec4_w b)"

definition vec4_scale :: "real vec4 \<Rightarrow> real \<Rightarrow> real vec4" where
  "vec4_scale a s = Vec4 (vec4_x a * s) (vec4_y a * s) (vec4_z a * s) (vec4_w a * s)"

definition mat4_mul_vec4 :: "real mat4 \<Rightarrow> real vec4 \<Rightarrow> real vec4" where
  "mat4_mul_vec4 m v =
     vec4_add (vec4_add (vec4_add (vec4_scale (col0 m) (vec4_x v)) (vec4_scale (col1 m) (vec4_y v)))
                 (vec4_scale (col2 m) (vec4_z v)))
       (vec4_scale (col3 m) (vec4_w v))"

definition mat4_mul :: "real mat4 \<Rightarrow> real mat4 \<Rightarrow> real mat4" where
  "mat4_mul m1 m2 =
     Mat4 (mat4_mul_vec4 m1 (col0 m2)) (mat4_mul_vec4 m1 (col1 m2))
          (mat4_mul_vec4 m1 (col2 m2)) (mat4_mul_vec4 m1 (col3 m2))"

definition mat4_identity :: "real mat4" where
  "mat4_identity = Mat4 (Vec4 1 0 0 0) (Vec4 0 1 0 0) (Vec4 0 0 1 0) (Vec4 0 0 0 1)"

definition glm_radians :: "real \<Rightarrow> real" where
  "glm_radians degrees = degrees * (pi / 180)"

definition glm_perspective :: "real \<Rightarrow> real \<Rightarrow> real \<Rightarrow> real \<Rightarrow> real mat4" where
  "glm_perspective fovy aspect zNear zFar =
     (let tanHalfFovy = tan (fovy / 2)
      in Mat4 (Vec4 (1 / (aspect * tanHalfFovy)) 0 0 0)
              (Vec4 0 (1 / tanHalfFovy) 0 0)
              (Vec4 0 0 (zFar / (zNear - zFar)) (- 1))
              (Vec4 0 0 (- (zFar * zNear) / (zFar - zNear)) 0))"

definition glm_translate :: "real mat4 \<Rightarrow> real vec3 \<Rightarrow> real mat4" where
  "glm_translate m v =
     Mat4 (col0 m) (col1 m) (col2 m)
       (vec4_add (vec4_add (vec4_add (vec4_scale (col0 m) (vec3_x v)) (vec4_scale (col1 m) (vec3_y v)))
                   (vec4_scale (col2 m) (vec3_z v)))
          (col3 m))"

definition glm_normalize :: "real vec3 \<Rightarrow> real vec3" where
  "glm_normalize v =
     (let s = 1 / sqrt (vec3_x v * vec3_x v + vec3_y v * vec3_y v + vec3_z v * vec3_z v)
      in Vec3 (vec3_x v * s) (vec3_y v * s) (vec3_z v * s))"

definition glm_rotate :: "real mat4 \<Rightarrow> real \<Rightarrow> real vec3 \<Rightarrow> real mat4" where
  "glm_rotate m angle v =
     (let c = cos angle; s = sin angle;
          axis = glm_normalize v;
          temp = Vec3 ((1 - c) * vec3_x axis) ((1 - c) * vec3_y axis) ((1 - c) * vec3_z axis);
          r00 = c + vec3_x temp * vec3_x axis;
          r01 = vec3_x temp * vec3_y axis + s * vec3_z axis;
          r02 = vec3_x temp * vec3_z axis - s * vec3_y axis;
          r10 = vec3_y temp * vec3_x axis - s * vec3_z axis;
          r11 = c + vec3_y temp * vec3_y axis;
          r12 = vec3_y temp * vec3_z axis + s * vec3_x axis;
          r20 = vec3_z temp * vec3_x axis + s * vec3_y axis;
          r21 = vec3_z temp * vec3_y axis - s * vec3_x axis;
          r22 = c + vec3_z temp * vec3_z axis
      in Mat4
           (vec4_add (vec4_add (vec4_scale (col0 m) r00) (vec4_scale (col1 m) r01))
              (vec4_scale (col2 m) r02))
           (vec4_add (vec4_add (vec4_scale (col0 m) r10) (vec4_scale (col1 m) r11))
              (vec4_scale (col2 m) r12))
           (vec4_add (vec4_add (vec4_scale (col0 m) r20) (vec4_scale (col1 m) r21))
              (vec4_scale (col2 m) r22))
           (col3 m))"

text \<open>
  The function \<^verbatim>\<open>camera\<close> of \<^verbatim>\<open>main.cpp\<close>, with the size of the window.
\<close>

definition WIDTH :: int where "WIDTH = 1920"

definition HEIGHT :: int where "HEIGHT = 1080"

definition camera :: "real \<Rightarrow> real vec2 \<Rightarrow> real mat4" where
  "camera zm rot =
     (let aspectRatio = real_of_int WIDTH / real_of_int HEIGHT;
          Projection = glm_perspective (glm_radians 45) aspectRatio 0.1 100;
          View = glm_translate mat4_identity (Vec3 0 0 (- zm));
          View = glm_rotate View (glm_radians (vec2_y rot)) (Vec3 1 0 0);
          View = glm_rotate View (glm_radians (vec2_x rot)) (Vec3 0 1 0);
          Model = mat4_identity
      in mat4_mul (mat4_mul Projection View) Model)"




section \<open>The graphics device\<close>

text \<open>
  Modelled from the spec: OpenGL is a collaborator of the program, and its functions are
  not part of the sources. The model keeps the part of its state the program's behaviour
  below depends on: the calls issued so far, the error flags raised,
  the shader objects and program objects alive, which shader is attached to which program,
  and the shaders flagged for deletion. The rules are those of the OpenGL specification:
  deleting a shader that is attached only flags it; detaching a flagged shader deletes it;
  deleting a program detaches its shaders; a call on a name that is no object raises
  \<^verbatim>\<open>GL_INVALID_VALUE\<close> and has no other effect. Shader and program names come from one
  counter and are never reused. Calls that touch no object of the model are only recorded.
\<close>

definition GL_VERTEX_SHADER :: GLenum where "GL_VERTEX_SHADER = 0x8B31"

definition GL_FRAGMENT_SHADER :: GLenum where "GL_FRAGMENT_SHADER = 0x8B30"

definition GL_COMPILE_STATUS :: GLenum where "GL_COMPILE_STATUS = 0x8B81"

definition GL_LINK_STATUS :: GLenum where "GL_LINK_STATUS = 0x8B82"

definition GL_INFO_LOG_LENGTH :: GLenum where "GL_INFO_LOG_LENGTH = 0x8B84"

definition GL_PROGRAM_SEPARABLE :: GLenum where "GL_PROGRAM_SEPARABLE = 0x8258"

definition GL_VERTEX_SHADER_BIT :: nat where "GL_VERTEX_SHADER_BIT = 0x1"

definition GL_FRAGMENT_SHADER_BIT :: nat where "GL_FRAGMENT_SHADER_BIT = 0x2"

definition GL_TRIANGLES :: GLenum where "GL_TRIANGLES = 0x0004"

definition GL_UNSIGNED_INT :: GLenum where "GL_UNSIGNED_INT = 0x1405"

definition GL_COLOR :: GLenum where "GL_COLOR = 0x1800"

definition GL_DEPTH :: GLenum where "GL_DEPTH = 0x1801"

definition GL_UNIFORM_BUFFER :: GLenum where "GL_UNIFORM_BUFFER = 0x8A11"

definition GL_SHADER_STORAGE_BUFFER :: GLenum where "GL_SHADER_STORAGE_BUFFER = 0x90D2"

definition GL_MAP_WRITE_BIT :: nat where "GL_MAP_WRITE_BIT = 0x2"

definition GL_MAP_INVALIDATE_BUFFER_BIT :: nat where "GL_MAP_INVALIDATE_BUFFER_BIT = 0x8"

definition GL_INVALID_VALUE :: GLenum where "GL_INVALID_VALUE = 0x0501"

definition GL_INVALID_OPERATION :: GLenum where "GL_INVALID_OPERATION = 0x0502"

datatype gl_call =
    CreateShader GLenum
  | ShaderSource nat string
  | CompileShader nat
  | GetShaderiv nat GLenum
  | GetShaderInfoLog nat
  | DeleteShader nat
  | CreateProgram
  | ProgramParameteri nat GLenum int
  | AttachShader nat nat
  | LinkProgram nat
  | GetProgramiv nat GLenum
  | GetProgramInfoLog nat
  | DetachShader nat nat
  | DeleteProgram nat
  | CreateProgramPipelines
  | UseProgramStages nat nat nat
  | DeleteProgramPipelines nat
  | DeleteVertexArrays nat
  | DeleteBuffers "nat list"
  | DeleteTextures nat
  | MapNamedBufferRange nat int int nat
  | WriteMVP "real mat4"
  | WriteMVP_nonfinite ieee_value "real vec2"
  | UnmapNamedBuffer nat
  | ClearBufferfv GLenum int "real vec4"
  | BindProgramPipeline nat
  | BindVertexArray nat
  | BindTextureUnit nat nat
  | BindBufferBase GLenum nat nat
  | DrawElementsInstanced GLenum int GLenum int

record gl_state =
  calls :: "gl_call list"
  errors :: "GLenum list"
  next_name :: nat
  shaders :: "nat list"
  programs :: "nat list"
  attached :: "(nat \<times> nat) list"
  flagged :: "nat list"
  next_pipeline :: nat
  pipelines :: "nat list"

definition gl_initial :: gl_state where
  "gl_initial =
     \<lparr>calls = [], errors = [], next_name = 1, shaders = [], programs = [], attached = [],
      flagged = [], next_pipeline = 1, pipelines = []\<rparr>"

definition gl_log :: "gl_call \<Rightarrow> gl_state \<Rightarrow> gl_state" where
  "gl_log c gl = gl\<lparr>calls := calls gl @ [c]\<rparr>"

definition gl_error :: "GLenum \<Rightarrow> gl_state \<Rightarrow> gl_state" where
  "gl_error e gl = gl\<lparr>errors := errors gl @ [e]\<rparr>"

definition is_attached :: "nat \<Rightarrow> gl_state \<Rightarrow> bool" where
  "is_attached s gl = list_ex (\<lambda>a. snd a = s) (attached gl)"

definition glCreateShader :: "GLenum \<Rightarrow> gl_state \<Rightarrow> nat \<times> gl_state" where
  "glCreateShader ty gl0 =
     (let gl = gl_log (CreateShader ty) gl0
      in (next_name gl, gl\<lparr>shaders := shaders gl @ [next_name gl], next_name := Suc (next_name gl)\<rparr>))"

definition glCreateProgram :: "gl_state \<Rightarrow> nat \<times> gl_state" where
  "glCreateProgram gl0 =
     (let gl = gl_log CreateProgram gl0
      in (next_name gl, gl\<lparr>programs := programs gl @ [next_name gl], next_name := Suc (next_name gl)\<rparr>))"

definition glDeleteShader :: "nat \<Rightarrow> gl_state \<Rightarrow> gl_state" where
  "glDeleteShader s gl0 =
     (let gl = gl_log (DeleteShader s) gl0
      in if s = 0 then gl
         else if s \<notin> set (shaders gl) then gl_error GL_INVALID_VALUE gl
         else if is_attached s gl then gl\<lparr>flagged := s # flagged gl\<rparr>
         else gl\<lparr>shaders := removeAll s (shaders gl)\<rparr>)"

definition glAttachShader :: "nat \<Rightarrow> nat \<Rightarrow> gl_state \<Rightarrow> gl_state" where
  "glAttachShader p s gl0 =
     (let gl = gl_log (AttachShader p s) gl0
      in if p \<notin> set (programs gl) \<or> s \<notin> set (shaders gl) then gl_error GL_INVALID_VALUE gl
         else if (p, s) \<in> set (attached gl) then gl_error GL_INVALID_OPERATION gl
         else gl\<lparr>attached := attached gl @ [(p, s)]\<rparr>)"

definition glDetachShader :: "nat \<Rightarrow> nat \<Rightarrow> gl_state \<Rightarrow> gl_state" where
  "glDetachShader p s gl0 =
     (let gl = gl_log (DetachShader p s) gl0
      in if p \<notin> set (programs gl) \<or> s \<notin> set (shaders gl) then gl_error GL_INVALID_VALUE gl
         else if (p, s) \<notin> set (attached gl) then gl_error GL_INVALID_OPERATION gl
         else
           (let gl1 = gl\<lparr>attached := removeAll (p, s) (attached gl)\<rparr>
            in if s \<in> set (flagged gl1) \<and> \<not> is_attached s gl1 then
                 gl1\<lparr>shaders := removeAll s (shaders gl1), flagged := removeAll s (flagged gl1)\<rparr>
               else gl1))"

definition glDeleteProgram :: "nat \<Rightarrow> gl_state \<Rightarrow> gl_state" where
  "glDeleteProgram p gl0 =
     (let gl = gl_log (DeleteProgram p) gl0
      in if p = 0 then gl
         else if p \<notin> set (programs gl) then gl_error GL_INVALID_VALUE gl
         else
           (let rest = filter (\<lambda>a. fst a \<noteq> p) (attached gl);
                dead = filter (\<lambda>s. \<not> list_ex (\<lambda>a. snd a = s) rest) (flagged gl)
            in gl\<lparr>programs := removeAll p (programs gl), attached := rest,
                  shaders := filter (\<lambda>s. s \<notin> set dead) (shaders gl),
                  flagged := filter (\<lambda>s. s \<notin> set dead) (flagged gl)\<rparr>))"

definition gl_program_call :: "gl_call \<Rightarrow> nat \<Rightarrow> gl_state \<Rightarrow> gl_state" where
  "gl_program_call c p gl0 =
     (let gl = gl_log c gl0
      in if p \<notin> set (programs gl) then gl_error GL_INVALID_VALUE gl else gl)"

definition glProgramParameteri :: "nat \<Rightarrow> GLenum \<Rightarrow> int \<Rightarrow> gl_state \<Rightarrow> gl_state" where
  "glProgramParameteri p pname v gl = gl_program_call (ProgramParameteri p pname v) p gl"

definition glLinkProgram :: "nat \<Rightarrow> gl_state \<Rightarrow> gl_state" where
  "glLinkProgram p gl = gl_program_call (LinkProgram p) p gl"

definition glCreateProgramPipelines :: "gl_state \<Rightarrow> nat \<times> gl_state" where
  "glCreateProgramPipelines gl0 =
     (let gl = gl_log CreateProgramPipelines gl0
      in (next_pipeline gl,
          gl\<lparr>pipelines := pipelines gl @ [next_pipeline gl], next_pipeline := Suc (next_pipeline gl)\<rparr>))"

definition glUseProgramStages :: "nat \<Rightarrow> nat \<Rightarrow> nat \<Rightarrow> gl_state \<Rightarrow> gl_state" where
  "glUseProgramStages pl stages p gl0 =
     (let gl = gl_log (UseProgramStages pl stages p) gl0
      in if p \<noteq> 0 \<and> p \<notin> set (programs gl) then gl_error GL_INVALID_VALUE gl else gl)"

definition glDeleteProgramPipelines :: "nat \<Rightarrow> gl_state \<Rightarrow> gl_state" where
  "glDeleteProgramPipelines pl gl0 =
     (let gl = gl_log (DeleteProgramPipelines pl) gl0
      in gl\<lparr>pipelines := removeAll pl (pipelines gl)\<rparr>)"

section \<open>Shader and pipeline builder\<close>

text \<open>
  What the driver answers to the status and info-log queries is an input of the model: for
  each of the two compilations and for the link, the status and the length of the info
  log. The build configuration is the parameter \<open>ndebug\<close>: it is true when the program is
  compiled with \<^verbatim>\<open>NDEBUG\<close>. The texts the checks print are not part of the model.
\<close>

type_synonym answer = "bool \<times> int"

record driver =
  vs_answer :: answer
  fs_answer :: answer
  link_answer :: answer

text \<open>
  The condition under which \<^verbatim>\<open>checkShader\<close> and \<^verbatim>\<open>checkProgram\<close> report: the info log
  is not empty and, with \<^verbatim>\<open>NDEBUG\<close> only, the status is \<^verbatim>\<open>GL_FALSE\<close>.
\<close>

definition check_reports :: "bool \<Rightarrow> bool \<Rightarrow> int \<Rightarrow> bool" where
  "check_reports ndebug status maxLength =
     (maxLength > 0 \<and> (if ndebug then status = False else True))"

definition checkShader :: "bool \<Rightarrow> answer \<Rightarrow> nat \<Rightarrow> gl_state \<Rightarrow> gl_state" where
  "checkShader ndebug ans shader gl0 =
     (let gl = gl_log (GetShaderiv shader GL_COMPILE_STATUS) gl0;
          isCompiled = fst ans;
          gl = gl_log (GetShaderiv shader GL_INFO_LOG_LENGTH) gl;
          maxLength = snd ans
      in if check_reports ndebug isCompiled maxLength then
           glDeleteShader shader (gl_log (GetShaderInfoLog shader) gl)
         else gl)"

definition checkProgram :: "bool \<Rightarrow> answer \<Rightarrow> nat \<Rightarrow> gl_state \<Rightarrow> gl_state" where
  "checkProgram ndebug ans program gl0 =
     (let gl = gl_log (GetProgramiv program GL_LINK_STATUS) gl0;
          isLinked = fst ans;
          gl = gl_log (GetProgramiv program GL_INFO_LOG_LENGTH) gl;
          maxLength = snd ans
      in if check_reports ndebug isLinked maxLength then
           glDeleteProgram program (gl_log (GetProgramInfoLog program) gl)
         else gl)"

definition createShader ::
  "bool \<Rightarrow> answer \<Rightarrow> string \<Rightarrow> GLenum \<Rightarrow> gl_state \<Rightarrow> nat \<times> gl_state" where
  "createShader ndebug ans source shaderType gl0 =
     (let (shader, gl) = glCreateShader shaderType gl0;
          gl = gl_log (ShaderSource shader source) gl;
          gl = gl_log (CompileShader shader) gl;
          gl = checkShader ndebug ans shader gl
      in (shader, gl))"

text \<open>
  \<^verbatim>\<open>createShaderProgram\<close>, as its first call runs (the array \<^verbatim>\<open>shaders\<close> is a static
  local, bound to the two shaders of the first call); \<^verbatim>\<open>main\<close> calls it once.
\<close>

definition createShaderProgram ::
  "bool \<Rightarrow> driver \<Rightarrow> string \<times> string \<Rightarrow> gl_state \<Rightarrow> (nat \<times> nat) \<times> gl_state" where
  "createShaderProgram ndebug drv source gl0 =
     (let (vs, gl) = createShader ndebug (vs_answer drv) (fst source) GL_VERTEX_SHADER gl0;
          (fs, gl) = createShader ndebug (fs_answer drv) (snd source) GL_FRAGMENT_SHADER gl;
          shaders = [vs, fs];
          (program, gl) = glCreateProgram gl;
          gl = glProgramParameteri program GL_PROGRAM_SEPARABLE 1 gl;
          gl = fold (\<lambda>shader. glAttachShader program shader) shaders gl;
          gl = glLinkProgram program gl;
          gl = checkProgram ndebug (link_answer drv) program gl;
          gl = fold (\<lambda>shader gl. glDeleteShader shader (glDetachShader program shader gl)) shaders gl;
          (pipeline, gl) = glCreateProgramPipelines gl;
          gl = glUseProgramStages pipeline (GL_VERTEX_SHADER_BIT OR GL_FRAGMENT_SHADER_BIT) program gl
      in ((program, pipeline), gl))"

text \<open>
  A state of the device in which the names from the counter on are unused.
\<close>

definition gl_wellformed :: "gl_state \<Rightarrow> bool" where
  "gl_wellformed g =
     (0 < next_name g \<and>
      list_all (\<lambda>n. n < next_name g) (shaders g) \<and>
      list_all (\<lambda>n. n < next_name g) (programs g) \<and>
      list_all (\<lambda>a. fst a < next_name g \<and> snd a < next_name g) (attached g) \<and>
      list_all (\<lambda>n. n < next_name g) (flagged g))"

section \<open>Frame loop\<close>

text \<open>
  The local variables of \<^verbatim>\<open>main\<close> that the loop uses, and the state of the whole program.
  One pass of the loop is \<open>tick\<close> (the frame counter and the window title),
  \<open>draw\<close> (the upload of the camera matrix, the clears, the bindings and the draw call)
  and the dispatch of the pending events. The value of \<^verbatim>\<open>glfwGetTime\<close> and the events that
  \<^verbatim>\<open>glfwPollEvents\<close> finds are inputs.
\<close>

datatype buffer_type = VERTEX | ELEMENT | TRANSFORM

record locals =
  program :: nat
  pipeline :: nat
  vao :: nat
  buffers :: "buffer_type \<Rightarrow> nat"
  tex :: nat
  blockSize :: int
  currentFrame :: real
  deltaTime :: real
  lastFrame :: real
  time :: real
  fps :: "32 word"

record world =
  app_state :: app
  mesh :: model
  gl :: gl_state
  loc :: locals
  title :: string

text \<open>
  \<^verbatim>\<open>std::to_string\<close> of an unsigned number, and the conversion of a size to \<^verbatim>\<open>GLsizei\<close>.
\<close>

fun to_string :: "nat \<Rightarrow> string" where
  "to_string n =
     (if n < 10 then [char_of (48 + n)] else to_string (n div 10) @ [char_of (48 + n mod 10)])"

definition GLsizei_of_size :: "nat \<Rightarrow> int" where
  "GLsizei_of_size n = sint (word_of_nat n :: 32 word)"

definition tick :: "real \<Rightarrow> world \<Rightarrow> world" where
  "tick now w =
     (let l = loc w;
          l = l\<lparr>currentFrame := now\<rparr>;
          l = l\<lparr>deltaTime := currentFrame l - lastFrame l\<rparr>;
          l = l\<lparr>lastFrame := currentFrame l\<rparr>;
          l = l\<lparr>time := time l + deltaTime l\<rparr>;
          l = l\<lparr>fps := fps l + 1\<rparr>
      in if time l \<ge> 1 then
           w\<lparr>title := ''FPS: '' @ to_string (unat (fps l)), loc := l\<lparr>time := time l - 1, fps := 0\<rparr>\<rparr>
         else w\<lparr>loc := l\<rparr>)"

text \<open>
  The assignment \<^verbatim>\<open>Pointer->MVP = camera(zoom, rotation)\<close> into the mapped buffer. The
  matrices of the model have real entries; the matrix of a zoom that is an infinity or a
  NaN has none, and the write is recorded with the arguments of \<^verbatim>\<open>camera\<close> instead.
\<close>

definition write_mvp :: "ieee_value \<Rightarrow> real vec2 \<Rightarrow> gl_call" where
  "write_mvp zm rot =
     (case zm of Finite z \<Rightarrow> WriteMVP (camera z rot) | v \<Rightarrow> WriteMVP_nonfinite v rot)"

definition draw :: "world \<Rightarrow> world" where
  "draw w =
     (let l = loc w;
          g = gl w;
          g = gl_log (MapNamedBufferRange (buffers l TRANSFORM) 0 (blockSize l)
                (GL_MAP_WRITE_BIT OR GL_MAP_INVALIDATE_BUFFER_BIT)) g;
          g = gl_log (write_mvp (zoom (app_state w)) (rotation (app_state w))) g;
          g = gl_log (UnmapNamedBuffer (buffers l TRANSFORM)) g;
          g = gl_log (ClearBufferfv GL_COLOR 0 (Vec4 0.26 0.33 0.46 1)) g;
          g = gl_log (ClearBufferfv GL_DEPTH 0 (Vec4 1 1 1 1)) g;
          g = gl_log (BindProgramPipeline (pipeline l)) g;
          g = gl_log (BindVertexArray (vao l)) g;
          g = gl_log (BindTextureUnit 1 (tex l)) g;
          g = gl_log (BindBufferBase GL_UNIFORM_BUFFER 1 (buffers l TRANSFORM)) g;
          g = gl_log (BindBufferBase GL_SHADER_STORAGE_BUFFER 0 (buffers l VERTEX)) g;
          g = gl_log (DrawElementsInstanced GL_TRIANGLES
                (GLsizei_of_size (length (indices (mesh w)))) GL_UNSIGNED_INT 1) g
      in w\<lparr>gl := g\<rparr>)"

definition render :: "real \<Rightarrow> world \<Rightarrow> world" where
  "render now w = draw (tick now w)"

definition frame :: "real \<Rightarrow> event list \<Rightarrow> world \<Rightarrow> world" where
  "frame now events w =
     (let w = render now w
      in w\<lparr>app_state := glfwPollEvents events (app_state w)\<rparr>)"

fun frames :: "(real \<times> event list) list \<Rightarrow> world \<Rightarrow> world" where
  "frames [] w = w"
| "frames (f # fs) w = frames fs (frame (fst f) (snd f) w)"

text \<open>
  The end of \<^verbatim>\<open>main\<close>: the objects are deleted.
\<close>

definition cleanup :: "world \<Rightarrow> world" where
  "cleanup w =
     (let l = loc w;
          g = gl w;
          g = glDeleteProgramPipelines (pipeline l) g;
          g = glDeleteProgram (program l) g;
          g = gl_log (DeleteVertexArrays (vao l)) g;
          g = gl_log (DeleteBuffers [buffers l VERTEX, buffers l ELEMENT, buffers l TRANSFORM]) g;
          g = gl_log (DeleteTextures (tex l)) g
      in w\<lparr>gl := g\<rparr>)"

text \<open>
  The calls issued between two states of the device, and the draw calls among them.
\<close>

definition issued :: "gl_state \<Rightarrow> gl_state \<Rightarrow> gl_call list" where
  "issued g g' = drop (length (calls g)) (calls g')"

fun is_draw :: "gl_call \<Rightarrow> bool" where
  "is_draw (DrawElementsInstanced mode count ty instances) = True"
| "is_draw c = False"

text \<open>
  The program state with the handles and the device state that a build returned.
\<close>

definition with_program :: "(nat \<times> nat) \<times> gl_state \<Rightarrow> world \<Rightarrow> world" where
  "with_program r w =
     w\<lparr>gl := snd r, loc := (loc w)\<lparr>program := fst (fst r), pipeline := snd (fst r)\<rparr>\<rparr>"

subsection \<open>Sample drivers and a sample state\<close>

text \<open>
  A driver without messages; one whose link fails with a message; one that compiles the
  vertex shader with a warning.
\<close>

definition quiet_driver :: driver where
  "quiet_driver = \<lparr>vs_answer = (True, 0), fs_answer = (True, 0), link_answer = (True, 0)\<rparr>"

definition link_failure :: driver where
  "link_failure = \<lparr>vs_answer = (True, 0), fs_answer = (True, 0), link_answer = (False, 27)\<rparr>"

definition vertex_warning :: driver where
  "vertex_warning = \<lparr>vs_answer = (True, 27), fs_answer = (True, 0), link_answer = (True, 0)\<rparr>"

fun sample_buffers :: "buffer_type \<Rightarrow> nat" where
  "sample_buffers VERTEX = 1"
| "sample_buffers ELEMENT = 2"
| "sample_buffers TRANSFORM = 3"

definition sample_world :: world where
  "sample_world =
     \<lparr>app_state = initial_app initial_window,
      mesh = \<lparr>vertices = triangle_vertices, indices = [0, 1, 2]\<rparr>,
      gl = gl_initial,
      loc = \<lparr>program = 0, pipeline = 0, vao = 1,
             buffers = sample_buffers,
             tex = 1, blockSize = 256, currentFrame = 0, deltaTime = 0, lastFrame = 0,
             time = 0, fps = 0\<rparr>,
      title = ''Rabbit''\<rparr>"

section \<open>Properties of the input handler\<close>

lemmas input_defs = key_callback_def mouse_button_callback_def cursor_position_callback_def
  scroll_callback_def glfwSetInputMode_def glfwGetInputMode_def glfwGetCursorPos_def
  glfwSetWindowShouldClose_def

lemma not_fless_zero_iff:
  "\<not> fless v (Finite 0) \<longleftrightarrow> v = PInf \<or> v = NaN \<or> (\<exists>z. v = Finite z \<and> 0 \<le> z)"
  by (cases v) auto

lemma scroll_callback_zoom:
  "zoom (scroll_callback x y st) =
     (if fless (fadd (zoom st) (fdiv_pos (to_float y) 4)) (Finite 0) then Finite 0
      else fadd (zoom st) (fdiv_pos (to_float y) 4))"
  by (simp add: scroll_callback_def Let_def)

lemma scroll_callback_not_below_zero: "\<not> fless (zoom (scroll_callback x y st)) (Finite 0)"
  by (simp add: scroll_callback_zoom)

lemma dispatch_zoom_not_below_zero:
  "\<not> fless (zoom st) (Finite 0) \<Longrightarrow> \<not> fless (zoom (dispatch e st)) (Finite 0)"
  by (cases e) (simp_all add: scroll_callback_not_below_zero, simp_all add: input_defs Let_def)

lemma glfwPollEvents_zoom_not_below_zero:
  "\<not> fless (zoom st) (Finite 0) \<Longrightarrow> \<not> fless (zoom (glfwPollEvents es st)) (Finite 0)"
  by (induction es arbitrary: st) (simp_all add: dispatch_zoom_not_below_zero)

lemma glfwPollEvents_append:
  "glfwPollEvents (es @ fs) st = glfwPollEvents fs (glfwPollEvents es st)"
  by (induction es arbitrary: st) simp_all

lemma round_float_samples:
  "round_float (- 8) = Finite (- 8)" "round_float (- 2) = Finite (- 2)"
  "round_float 38 = Finite 38" "round_float (- 200) = Finite (- 200)"
  "round_float (- 50) = Finite (- 50)" "round_float (- 10) = Finite (- 10)"
  "round_float (2 ^ 130) = PInf" "round_float (- (2 ^ 130)) = MInf"
  by code_simp+

text \<open>
  The rounding on numbers that are not of the format: a tenth, two ties (to the even
  neighbour, below and above), and the two numbers between which the rounded result
  leaves the range.
\<close>

lemma round_float_inexact:
  "round_float (1 / 10) = Finite (13421773 / 134217728)"
  "round_float (1 + 1 / 2 ^ 24) = Finite 1"
  "round_float (1 + 3 / 2 ^ 24) = Finite (1 + 1 / 2 ^ 22)"
  "round_float (2 ^ 128 - 2 ^ 103 - 1) = Finite (2 ^ 128 - 2 ^ 104)"
  "round_float (2 ^ 128 - 2 ^ 103) = PInf"
  by code_simp+

text \<open>
  Claim C3, amended. One call of \<^const>\<open>scroll_callback\<close> with the vertical delta \<open>y\<close>
  computes, in single precision, the sum of \<^const>\<open>zoom\<close> and of \<open>(float)y / 4\<close>. When the
  sum is a finite number \<open>s\<close>, the new zoom is \<open>max 0 s\<close>; when it is \<open>+\<infinity>\<close>, the new
  zoom is \<open>+\<infinity>\<close>; when it is \<open>-\<infinity>\<close>, the new zoom is 0; when it is a NaN, the
  new zoom is the NaN. When \<open>y\<close>, \<open>y / 4\<close> and \<open>zoom + y / 4\<close> are numbers of the float
  format, the new zoom is exactly \<open>max 0 (zoom + y / 4)\<close>. From the initial state, where
  the zoom is 40, the zoom never compares less than zero after any finite sequence of
  events, whatever their kinds and however many of them scroll down: it is a number that
  is not negative, \<open>+\<infinity>\<close> or a NaN.
\<close>

theorem zoom_never_below_zero:
  "zoom (scroll_callback x y st) =
     (case fadd (zoom st) (fdiv_pos (to_float y) 4) of
        Finite s \<Rightarrow> Finite (max 0 s) | PInf \<Rightarrow> PInf | MInf \<Rightarrow> Finite 0 | NaN \<Rightarrow> NaN) \<and>
   (zoom st = Finite z \<and> round_float v = Finite v \<and> round_float (v / 4) = Finite (v / 4) \<and>
    round_float (z + v / 4) = Finite (z + v / 4) \<longrightarrow>
      zoom (scroll_callback x (Finite v) st) = Finite (max 0 (z + v / 4))) \<and>
   zoom (initial_app w) = Finite 40 \<and>
   \<not> fless (zoom (scroll_callback x y st)) (Finite 0) \<and>
   \<not> fless (zoom (glfwPollEvents es (initial_app w))) (Finite 0) \<and>
   (case zoom (glfwPollEvents es (initial_app w)) of
      Finite s \<Rightarrow> 0 \<le> s | PInf \<Rightarrow> True | MInf \<Rightarrow> False | NaN \<Rightarrow> True)"
proof -
  have a: "zoom (scroll_callback x y st) =
     (case fadd (zoom st) (fdiv_pos (to_float y) 4) of
        Finite s \<Rightarrow> Finite (max 0 s) | PInf \<Rightarrow> PInf | MInf \<Rightarrow> Finite 0 | NaN \<Rightarrow> NaN)" for y
    by (cases "fadd (zoom st) (fdiv_pos (to_float y) 4)")
      (simp_all add: scroll_callback_zoom max_def)
  have b: "zoom (scroll_callback x (Finite v) st) = Finite (max 0 (z + v / 4))"
    if "zoom st = Finite z" "round_float v = Finite v" "round_float (v / 4) = Finite (v / 4)"
      "round_float (z + v / 4) = Finite (z + v / 4)"
    using that by (simp add: a)
  have c: "\<not> fless (zoom (glfwPollEvents es (initial_app w))) (Finite 0)"
    by (rule glfwPollEvents_zoom_not_below_zero) (simp add: initial_app_def)
  then have d: "case zoom (glfwPollEvents es (initial_app w)) of
      Finite s \<Rightarrow> 0 \<le> s | PInf \<Rightarrow> True | MInf \<Rightarrow> False | NaN \<Rightarrow> True"
    by (cases "zoom (glfwPollEvents es (initial_app w))") simp_all
  have e: "zoom (initial_app w) = Finite 40"
    by (simp add: initial_app_def)
  show ?thesis
    using a [of y] b c d e scroll_callback_not_below_zero [of x y st] by blast
qed

theorem zoom_never_below_zero_witness:
  "zoom (initial_app initial_window) = Finite 40 \<and>
   round_float (- 8) = Finite (- 8) \<and> round_float (- 8 / 4) = Finite (- 8 / 4) \<and>
   round_float (40 + - 8 / 4) = Finite (40 + - 8 / 4) \<and>
   zoom (scroll_callback (Finite 0) (Finite (- 8)) (initial_app initial_window)) = Finite 38 \<and>
   round_float (- 200) = Finite (- 200) \<and> round_float (- 200 / 4) = Finite (- 200 / 4) \<and>
   round_float (40 + - 200 / 4) = Finite (40 + - 200 / 4) \<and>
   zoom (scroll_callback (Finite 0) (Finite (- 200)) (initial_app initial_window)) = Finite 0"
  using zoom_never_below_zero [of "Finite 0" "Finite (- 8)" "initial_app initial_window" 40 "- 8"]
    zoom_never_below_zero [of "Finite 0" "Finite (- 200)" "initial_app initial_window" 40 "- 200"]
  by (simp add: round_float_samples initial_app_def)

text \<open>
  Claim C3 as stated fails. A scroll event with the vertical offset \<open>2\<^bsup>130\<^esup>\<close>, which is a
  \<^verbatim>\<open>double\<close> beyond the range of \<^verbatim>\<open>float\<close>, makes the zoom \<open>+\<infinity>\<close>, not the number
  \<open>max 0 (40 + 2\<^bsup>130\<^esup> / 4)\<close>. A second event with the opposite offset adds \<open>-\<infinity>\<close>
  to it: the zoom becomes a NaN, the comparison of the clamp is false and the NaN stays.
  A NaN is not greater than or equal to zero.
\<close>

theorem zoom_overflows_to_nan:
  "zoom (scroll_callback (Finite 0) (Finite (2 ^ 130)) (initial_app initial_window)) = PInf \<and>
   zoom (scroll_callback (Finite 0) (Finite (2 ^ 130)) (initial_app initial_window)) \<noteq>
     Finite (max 0 (40 + 2 ^ 130 / 4)) \<and>
   zoom (glfwPollEvents
       [ScrollEvent (Finite 0) (Finite (2 ^ 130)), ScrollEvent (Finite 0) (Finite (- (2 ^ 130)))]
       (initial_app initial_window)) = NaN \<and>
   \<not> fle (Finite 0) (zoom (glfwPollEvents
       [ScrollEvent (Finite 0) (Finite (2 ^ 130)), ScrollEvent (Finite 0) (Finite (- (2 ^ 130)))]
       (initial_app initial_window)))"
  by code_simp



lemma free_moves:
  "glfwGetInputMode st \<noteq> GLFW_CURSOR_DISABLED \<Longrightarrow>
   glfwPollEvents (map (\<lambda>p. CursorPosEvent (fst p) (snd p)) ms) st =
     st\<lparr>win := (win st)\<lparr>cursor_pos := last (cursor_pos (win st) # ms)\<rparr>\<rparr>"
  by (induction ms arbitrary: st) (simp_all add: input_defs)

text \<open>
  Claim C10. Pressing the left button stores the cursor position of that moment in
  \<^const>\<open>cursorX\<close> and \<^const>\<open>cursorY\<close> and leaves the rotation alone. The first cursor
  event after the press therefore turns the camera by a tenth of the distance from the
  place of the press, whatever \<^const>\<open>cursorX\<close> and \<^const>\<open>cursorY\<close> held before. In
  particular, after a release and any free movement \<open>ms\<close> of the cursor, a new press and
  a move to \<open>(x, y)\<close> turn the camera by the distance from the last free position.
\<close>

theorem press_records_reference_point:
  "rotation (mouse_button_callback GLFW_MOUSE_BUTTON_LEFT GLFW_PRESS st) = rotation st \<and>
   (cursorX (mouse_button_callback GLFW_MOUSE_BUTTON_LEFT GLFW_PRESS st),
    cursorY (mouse_button_callback GLFW_MOUSE_BUTTON_LEFT GLFW_PRESS st)) = glfwGetCursorPos st \<and>
   rotation (glfwPollEvents
       [MouseButtonEvent GLFW_MOUSE_BUTTON_LEFT GLFW_PRESS, CursorPosEvent x y] st) =
     Vec2 (vec2_x (rotation st) + (x - fst (glfwGetCursorPos st)) / 10)
          (vec2_y (rotation st) + (y - snd (glfwGetCursorPos st)) / 10) \<and>
   rotation (glfwPollEvents
       (MouseButtonEvent GLFW_MOUSE_BUTTON_LEFT GLFW_RELEASE #
        map (\<lambda>p. CursorPosEvent (fst p) (snd p)) ms @
        [MouseButtonEvent GLFW_MOUSE_BUTTON_LEFT GLFW_PRESS, CursorPosEvent x y]) st) =
     Vec2 (vec2_x (rotation st) + (x - fst (last (glfwGetCursorPos st # ms))) / 10)
          (vec2_y (rotation st) + (y - snd (last (glfwGetCursorPos st # ms))) / 10)"
proof -
  let ?press = "mouse_button_callback GLFW_MOUSE_BUTTON_LEFT GLFW_PRESS"
  let ?rel = "mouse_button_callback GLFW_MOUSE_BUTTON_LEFT GLFW_RELEASE st"
  have a: "rotation (?press st) = rotation st"
    by (simp add: input_defs Let_def GLFW_PRESS_def)
  have b: "(cursorX (?press st), cursorY (?press st)) = glfwGetCursorPos st"
    by (simp add: input_defs Let_def GLFW_PRESS_def)
  have c: "rotation (cursor_position_callback x y
             ((?press s)\<lparr>win := (win (?press s))\<lparr>cursor_pos := (x, y)\<rparr>\<rparr>)) =
     Vec2 (vec2_x (rotation s) + (x - fst (glfwGetCursorPos s)) / 10)
          (vec2_y (rotation s) + (y - snd (glfwGetCursorPos s)) / 10)" for s
    by (simp add: input_defs Let_def GLFW_PRESS_def)
  have r: "glfwGetInputMode ?rel \<noteq> GLFW_CURSOR_DISABLED" "rotation ?rel = rotation st"
    "glfwGetCursorPos ?rel = glfwGetCursorPos st"
    by (simp_all add: input_defs GLFW_PRESS_def GLFW_RELEASE_def)
  let ?mv = "?rel\<lparr>win := (win ?rel)\<lparr>cursor_pos := last (cursor_pos (win ?rel) # ms)\<rparr>\<rparr>"
  have e: "rotation ?mv = rotation st" "glfwGetCursorPos ?mv = last (glfwGetCursorPos st # ms)"
    using r by (simp_all add: glfwGetCursorPos_def)
  show ?thesis
    using a b c [of st] c [of ?mv] free_moves [OF r(1), of ms] e
    by (simp add: glfwPollEvents_append)
qed

section \<open>Properties of the texture loader\<close>

text \<open>
  Claim C5. The choice of the device formats is a total function of the requested channel
  count: 1 gives (R8, RED), 2 gives (RG8, RG), 3 gives (RGB8, RGB), 4 gives (RGBA8, RGBA),
  and every other value gives what 4 gives.
\<close>

theorem loadTexture_format_total:
  "fst (loadTexture_format c) =
     (if c = 1 then (GL_R8, GL_RED)
      else if c = 2 then (GL_RG8, GL_RG)
      else if c = 3 then (GL_RGB8, GL_RGB)
      else (GL_RGBA8, GL_RGBA)) \<and>
   fst (loadTexture_format 4) = (GL_RGBA8, GL_RGBA) \<and>
   (c \<notin> {1, 2, 3, 4} \<longrightarrow> fst (loadTexture_format c) = fst (loadTexture_format 4))"
  by (simp add: loadTexture_format_def STBI_grey_def STBI_grey_alpha_def STBI_rgb_def
      STBI_rgb_alpha_def)

theorem loadTexture_format_total_witness:
  "(7::int) \<notin> {1, 2, 3, 4} \<and> fst (loadTexture_format 7) = (GL_RGBA8, GL_RGBA) \<and>
   fst (loadTexture_format 7) = fst (loadTexture_format 4) \<and>
   fst (loadTexture_format STBI_default) = fst (loadTexture_format STBI_rgb_alpha) \<and>
   fst (loadTexture_format STBI_grey) = (GL_R8, GL_RED) \<and>
   fst (loadTexture_format STBI_grey_alpha) = (GL_RG8, GL_RG) \<and>
   fst (loadTexture_format STBI_rgb) = (GL_RGB8, GL_RGB)"
  using loadTexture_format_total [of 7] loadTexture_format_total [of 0]
    loadTexture_format_total [of 1] loadTexture_format_total [of 2]
    loadTexture_format_total [of 3]
  by (simp add: STBI_default_def STBI_grey_def STBI_grey_alpha_def STBI_rgb_def
      STBI_rgb_alpha_def)

section \<open>Properties of the geometry loader\<close>

subsection \<open>Comparison is a partial equivalence\<close>

lemma float_eq_sym: "float_eq a b \<Longrightarrow> float_eq b a"
  by (auto simp: float_eq_def)

lemma float_eq_trans: "float_eq a b \<Longrightarrow> float_eq b c \<Longrightarrow> float_eq a c"
  by (auto simp: float_eq_def)

lemma Vertex_eq_sym: "Vertex_eq a b \<Longrightarrow> Vertex_eq b a"
  by (auto simp: Vertex_eq_def vec4_eq_def vec2_eq_def intro: float_eq_sym)

lemma Vertex_eq_trans: "Vertex_eq a b \<Longrightarrow> Vertex_eq b c \<Longrightarrow> Vertex_eq a c"
  unfolding Vertex_eq_def vec4_eq_def vec2_eq_def
  by (blast intro: float_eq_trans)

lemma Vertex_eq_refl_left: "Vertex_eq a b \<Longrightarrow> Vertex_eq a a"
  by (blast intro: Vertex_eq_sym Vertex_eq_trans)

lemma Vertex_eq_refl_right: "Vertex_eq a b \<Longrightarrow> Vertex_eq b b"
  by (blast intro: Vertex_eq_sym Vertex_eq_trans)

subsection \<open>Counting\<close>

lemma count_distinct_filter:
  assumes sym: "\<And>a b. eq a b \<Longrightarrow> eq b a"
    and trans: "\<And>a b c. eq a b \<Longrightarrow> eq b c \<Longrightarrow> eq a c"
  shows "count_distinct eq xs =
         count_distinct eq (filter (\<lambda>d. \<not> eq c d) xs) + (if list_ex (eq c) xs then 1 else 0)"
proof (induction xs)
  case Nil
  show ?case by simp
next
  case (Cons d ds)
  show ?case
  proof (cases "eq c d")
    case True
    have "eq d e = eq c e" for e
      using True sym trans by blast
    then have "list_ex (eq d) ds = list_ex (eq c) ds"
      unfolding list_ex_iff by simp
    with True Cons show ?thesis by simp
  next
    case False
    have "eq d e \<Longrightarrow> \<not> eq c e" for e
      using False sym trans by blast
    then have "list_ex (eq d) ds = list_ex (eq d) (filter (\<lambda>d. \<not> eq c d) ds)"
      unfolding list_ex_iff by auto
    with False Cons show ?thesis by simp
  qed
qed

lemma first_seen_count:
  assumes sym: "\<And>a b. eq a b \<Longrightarrow> eq b a"
    and trans: "\<And>a b c. eq a b \<Longrightarrow> eq b c \<Longrightarrow> eq a c"
  shows "length (first_seen eq ks cs) =
         count_distinct eq (filter (\<lambda>c. \<not> list_ex (\<lambda>k. eq k c) ks) cs)"
proof (induction cs arbitrary: ks)
  case Nil
  show ?case by simp
next
  case (Cons c cs)
  show ?case
  proof (cases "list_ex (\<lambda>k. eq k c) ks")
    case True
    with Cons show ?thesis by simp
  next
    case False
    let ?xs = "filter (\<lambda>c. \<not> list_ex (\<lambda>k. eq k c) ks) cs"
    have f: "filter (\<lambda>d. \<not> list_ex (\<lambda>k. eq k d) (ks @ [c])) cs = filter (\<lambda>d. \<not> eq c d) ?xs"
      by (induction cs) auto
    have "length (first_seen eq ks (c # cs)) = 1 + count_distinct eq (filter (\<lambda>d. \<not> eq c d) ?xs)"
      using False Cons [of "ks @ [c]"] f by simp
    moreover have "count_distinct eq (c # ?xs) = 1 + count_distinct eq (filter (\<lambda>d. \<not> eq c d) ?xs)"
      using count_distinct_filter [of eq ?xs c, OF sym trans] by simp
    ultimately show ?thesis using False by simp
  qed
qed

lemma first_seen_cong:
  "(\<And>w. list_ex (\<lambda>k. eq k w) ks = list_ex (\<lambda>k. eq k w) ks') \<Longrightarrow>
   first_seen eq ks cs = first_seen eq ks' cs"
proof (induction cs arbitrary: ks ks')
  case Nil
  show ?case by simp
next
  case (Cons c cs)
  have "first_seen eq (ks @ [c]) cs = first_seen eq (ks' @ [c]) cs"
    by (rule Cons.IH) (simp add: Cons.prems)
  moreover have "first_seen eq ks cs = first_seen eq ks' cs"
    by (rule Cons.IH) (simp add: Cons.prems)
  ultimately show ?case by (simp add: Cons.prems)
qed

text \<open>With equality as the comparison, the count is the number of elements of the set.\<close>

lemma count_distinct_eq_card: "count_distinct (=) xs = card (set xs)"
proof (induction xs)
  case Nil
  show ?case by simp
next
  case (Cons x xs)
  have "list_ex ((=) x) xs = (x \<in> set xs)"
    by (auto simp: list_ex_iff)
  with Cons show ?case
    by (simp add: card_insert_if)
qed

lemma count_distinct_cong:
  "(\<And>c d. c \<in> set cs \<Longrightarrow> d \<in> set cs \<Longrightarrow> eq c d = eq' c d) \<Longrightarrow>
   count_distinct eq cs = count_distinct eq' cs"
proof (induction cs)
  case Nil
  show ?case by simp
next
  case (Cons c cs)
  have "list_ex (eq c) cs = list_ex (eq' c) cs"
    unfolding list_ex_iff using Cons.prems by auto
  moreover have "count_distinct eq cs = count_distinct eq' cs"
    by (rule Cons.IH) (simp add: Cons.prems)
  ultimately show ?case by simp
qed

subsection \<open>The map\<close>

lemma umap_find_None_iff:
  "umap_find m v = None \<longleftrightarrow> \<not> list_ex (\<lambda>k. Vertex_eq k v) (map fst m)"
  by (induction m v rule: umap_find.induct) simp_all

lemma umap_assign_fresh: "umap_find m v = None \<Longrightarrow> umap_assign m v n = m @ [(v, n)]"
  by (induction m v rule: umap_find.induct) (simp_all split: if_splits)

lemma umap_find_append:
  "umap_find (m @ m') w = (case umap_find m w of Some i \<Rightarrow> Some i | None \<Rightarrow> umap_find m' w)"
  by (induction m w rule: umap_find.induct) simp_all

lemma umap_find_Some: "umap_find m v = Some i \<Longrightarrow> \<exists>k. (k, i) \<in> set m \<and> Vertex_eq k v"
  by (induction m v rule: umap_find.induct) (auto split: if_splits)

subsection \<open>One pass of the loop body\<close>

lemma body_found:
  "umap_find m v = Some i \<Longrightarrow>
   loadModel_body v (m, g) = (m, g\<lparr>indices := indices g @ [i]\<rparr>)"
  by (simp add: loadModel_body_def umap_count_def umap_index_def)

lemma body_new:
  "umap_find m v = None \<Longrightarrow> Vertex_eq v v \<Longrightarrow>
   loadModel_body v (m, g) =
     (m @ [(v, word_of_nat (length (vertices g)))],
      g\<lparr>vertices := vertices g @ [v],
        indices := indices g @ [word_of_nat (length (vertices g))]\<rparr>)"
  by (simp add: loadModel_body_def umap_count_def umap_index_def umap_assign_fresh
      umap_find_append)

lemma body_nan:
  "umap_find m v = None \<Longrightarrow> \<not> Vertex_eq v v \<Longrightarrow>
   loadModel_body v (m, g) =
     (m @ [(v, word_of_nat (length (vertices g))), (v, 0)],
      g\<lparr>vertices := vertices g @ [v], indices := indices g @ [0]\<rparr>)"
  by (simp add: loadModel_body_def umap_count_def umap_index_def umap_assign_fresh
      umap_find_append)

lemma body_cases:
  obtains (found) i where "umap_find m v = Some i"
      "loadModel_body v (m, g) = (m, g\<lparr>indices := indices g @ [i]\<rparr>)"
  | (new) "umap_find m v = None" "Vertex_eq v v"
      "loadModel_body v (m, g) =
         (m @ [(v, word_of_nat (length (vertices g)))],
          g\<lparr>vertices := vertices g @ [v],
            indices := indices g @ [word_of_nat (length (vertices g))]\<rparr>)"
  | (nan) "umap_find m v = None" "\<not> Vertex_eq v v"
      "loadModel_body v (m, g) =
         (m @ [(v, word_of_nat (length (vertices g))), (v, 0)],
          g\<lparr>vertices := vertices g @ [v], indices := indices g @ [0]\<rparr>)"
  using body_found body_new body_nan by (cases "umap_find m v") blast+

subsection \<open>The loops\<close>

lemma loadModel_indices_append:
  "loadModel_indices a (xs @ ys) s = ub_bind (loadModel_indices a xs s) (loadModel_indices a ys)"
  by (induction xs arbitrary: s) (simp_all add: ub_bind_def split: sum.splits)

lemma loadModel_shapes_concat:
  "loadModel_shapes a shs s = loadModel_indices a (concat shs) s"
  by (induction shs arbitrary: s)
    (simp_all add: loadModel_indices_append ub_bind_def split: sum.splits)

lemma loadModel_indices_candidates:
  "candidates a ixs = Inr cs \<Longrightarrow> loadModel_indices a ixs s = Inr (fold loadModel_body cs s)"
  by (induction ixs arbitrary: s cs) (auto simp: ub_bind_def split: sum.splits)

lemma loadModel_indices_error:
  "candidates a ixs = Inl e \<Longrightarrow> loadModel_indices a ixs s = Inl e"
  by (induction ixs arbitrary: s) (auto simp: ub_bind_def split: sum.splits)

lemma loadModel_Inr:
  "candidates (attrib ob) (concat (shapes ob)) = Inr cs \<Longrightarrow>
   loadModel ob g = Inr (snd (fold loadModel_body cs ([], g)))"
  by (simp add: loadModel_def loadModel_shapes_concat loadModel_indices_candidates ub_bind_def)

lemma loadModel_Inl:
  "candidates (attrib ob) (concat (shapes ob)) = Inl e \<Longrightarrow> loadModel ob g = Inl e"
  by (simp add: loadModel_def loadModel_shapes_concat loadModel_indices_error ub_bind_def)

lemma candidates_length: "candidates a ixs = Inr cs \<Longrightarrow> length cs = length ixs"
  by (induction ixs arbitrary: cs) (auto simp: ub_bind_def split: sum.splits)

lemma candidates_nth:
  "candidates a ixs = Inr cs \<Longrightarrow> k < length ixs \<Longrightarrow> candidate a (ixs ! k) = Inr (cs ! k)"
proof (induction ixs arbitrary: cs k)
  case Nil
  then show ?case by simp
next
  case (Cons ix ixs)
  then show ?case
    by (cases k) (auto simp: ub_bind_def split: sum.splits)
qed

lemma run_vertices:
  "vertices (snd (fold loadModel_body cs (m, g))) =
     vertices g @ first_seen Vertex_eq (map fst m) cs"
proof (induction cs arbitrary: m g)
  case Nil
  show ?case by simp
next
  case (Cons c cs)
  show ?case
  proof (cases rule: body_cases [of m c g])
    case (found i)
    then have "list_ex (\<lambda>k. Vertex_eq k c) (map fst m)"
      using umap_find_None_iff [of m c] by simp
    with found Cons show ?thesis by simp
  next
    case new
    then have "\<not> list_ex (\<lambda>k. Vertex_eq k c) (map fst m)"
      using umap_find_None_iff [of m c] by simp
    with new Cons show ?thesis by simp
  next
    case nan
    then have n: "\<not> list_ex (\<lambda>k. Vertex_eq k c) (map fst m)"
      using umap_find_None_iff [of m c] by simp
    have "first_seen Vertex_eq (map fst m @ [c, c]) cs = first_seen Vertex_eq (map fst m @ [c]) cs"
      by (rule first_seen_cong) auto
    with nan n Cons show ?thesis by simp
  qed
qed

lemma run_indices:
  "\<exists>js. indices (snd (fold loadModel_body cs (m, g))) = indices g @ js \<and> length js = length cs"
proof (induction cs arbitrary: m g)
  case Nil
  show ?case by simp
next
  case (Cons c cs)
  obtain m' i where b: "loadModel_body c (m, g) = (m', (snd (loadModel_body c (m, g))))"
     and i: "indices (snd (loadModel_body c (m, g))) = indices g @ [i]"
    by (cases rule: body_cases [of m c g]) auto
  obtain js where "indices (snd (fold loadModel_body cs (m', snd (loadModel_body c (m, g))))) =
      indices (snd (loadModel_body c (m, g))) @ js" "length js = length cs"
    using Cons by blast
  with b i show ?case by (auto intro!: exI [of _ "i # js"])
qed

lemma unat_word_of_nat_le: "unat (word_of_nat n :: 32 word) \<le> n"
  by (simp add: unat_of_nat)

lemma in_bounds_body: "in_bounds (m, g) \<Longrightarrow> in_bounds (loadModel_body c (m, g))"
proof (cases rule: body_cases [of m c g])
  case (found i)
  assume a: "in_bounds (m, g)"
  obtain k where "(k, i) \<in> set m" using umap_find_Some [OF found(1)] by blast
  with a have "unat i < length (vertices g)"
    by (auto simp: in_bounds_def list_all_iff)
  with a found show ?thesis by (simp add: in_bounds_def)
next
  case new
  assume a: "in_bounds (m, g)"
  have "unat (word_of_nat (length (vertices g)) :: 32 word) < Suc (length (vertices g))"
    using unat_word_of_nat_le [of "length (vertices g)"] by simp
  with a new show ?thesis
    by (auto simp: in_bounds_def list_all_iff less_SucI)
next
  case nan
  assume a: "in_bounds (m, g)"
  have "unat (word_of_nat (length (vertices g)) :: 32 word) < Suc (length (vertices g))"
    using unat_word_of_nat_le [of "length (vertices g)"] by simp
  with a nan show ?thesis
    by (auto simp: in_bounds_def list_all_iff less_SucI)
qed

lemma in_bounds_run: "in_bounds s \<Longrightarrow> in_bounds (fold loadModel_body cs s)"
proof (induction cs arbitrary: s)
  case Nil
  then show ?case by simp
next
  case (Cons c cs)
  then show ?case using in_bounds_body [of "fst s" "snd s" c] by simp
qed

lemma unat_word_of_nat_32: "n < 2 ^ 32 \<Longrightarrow> unat (word_of_nat n :: 32 word) = n"
  by (simp add: unat_of_nat)

lemma body_vertices_mono:
  "length (vertices (snd s)) \<le> length (vertices (snd (loadModel_body c s)))"
  by (cases s, cases rule: body_cases [of "fst s" c "snd s"]) auto

lemma faithful_body:
  assumes f: "faithful cs (m, g)"
    and b: "length (vertices (snd (loadModel_body c (m, g)))) \<le> 2 ^ 32"
  shows "faithful (cs @ [c]) (loadModel_body c (m, g))"
proof (cases rule: body_cases [of m c g])
  case (found i)
  obtain k where k: "(k, i) \<in> set m" "Vertex_eq k c"
    using umap_find_Some [OF found(1)] by blast
  then have "Vertex_eq k k" by (blast intro: Vertex_eq_refl_left)
  with f k have "unat i < length (vertices g)" "vertices g ! unat i = k"
    by (auto simp: faithful_def)
  with f k found(2) show ?thesis
    by (auto simp: faithful_def nth_append)
next
  case new
  let ?n = "length (vertices g)"
  have "?n < 2 ^ 32" using b new(3) by simp
  then have u: "unat (word_of_nat ?n :: 32 word) = ?n" by (rule unat_word_of_nat_32)
  show ?thesis
    unfolding new(3) faithful_def using f new(2) u
    by (auto simp: faithful_def nth_append less_Suc_eq)
next
  case nan
  show ?thesis
    unfolding nan(3) faithful_def using f nan(2)
    by (auto simp: faithful_def nth_append less_Suc_eq)
qed

lemma faithful_run:
  "length (vertices (snd (fold loadModel_body cs ([], empty_model)))) \<le> 2 ^ 32 \<Longrightarrow>
   faithful cs (fold loadModel_body cs ([], empty_model))"
proof (induction cs rule: rev_induct)
  case Nil
  show ?case by (simp add: faithful_def empty_model_def)
next
  case (snoc c cs)
  let ?s = "fold loadModel_body cs ([], empty_model)"
  have "length (vertices (snd ?s)) \<le> 2 ^ 32"
    using snoc.prems body_vertices_mono [of ?s c] by simp
  then have "faithful cs ?s" by (rule snoc.IH)
  then have "faithful (cs @ [c]) (loadModel_body c (fst ?s, snd ?s))"
    using snoc.prems by (intro faithful_body) simp_all
  then show ?case by simp
qed

lemma fetch_Inr:
  "0 \<le> i \<Longrightarrow> 0 \<le> c \<Longrightarrow> 0 < k \<Longrightarrow> k * i + c < int (length xs) \<Longrightarrow> k * i + c < 2 ^ 31 \<Longrightarrow>
   fetch xs k i c = Inr (xs ! nat (k * i + c))"
proof -
  assume a: "0 \<le> i" "0 \<le> c" "0 < k" "k * i + c < int (length xs)" "k * i + c < 2 ^ 31"
  have "0 \<le> k * i" using a by simp
  then have p: "- 2147483648 \<le> k * i" by linarith
  have a5: "k * i + c < 2147483648" using a(5) by simp
  have q: "k * i < 2147483648" using a(2) a5 by linarith
  have r: "- 2147483648 \<le> k * i + c" using \<open>0 \<le> k * i\<close> a(2) by linarith
  have s: "0 \<le> k * i + c" using \<open>0 \<le> k * i\<close> a by linarith
  have "int_mul_add k i c = Inr (k * i + c)"
    using p q r a5 by (simp add: int_mul_add_def int_in_range_def)
  moreover have "vector_at xs (k * i + c) = Inr (xs ! nat (k * i + c))"
    using s a(4) by (simp add: vector_at_def nat_less_iff)
  ultimately show ?thesis by (simp add: fetch_def ub_bind_def)
qed

lemma candidate_in_range:
  assumes "reference_in_range a ix"
  shows "\<exists>c. candidate a ix = Inr c"
proof -
  have v: "0 \<le> vertex_index ix" "3 * vertex_index ix + 2 < int (length (attrib_vertices a))"
      "3 * vertex_index ix + 2 < 2 ^ 31"
    and t: "0 \<le> texcoord_index ix" "2 * texcoord_index ix + 1 < int (length (attrib_texcoords a))"
      "2 * texcoord_index ix + 1 < 2 ^ 31"
    using assms by (simp_all add: reference_in_range_def)
  have "\<exists>x. fetch (attrib_vertices a) 3 (vertex_index ix) 0 = Inr x"
    using v by (subst fetch_Inr) simp_all
  moreover have "\<exists>x. fetch (attrib_vertices a) 3 (vertex_index ix) 1 = Inr x"
    using v by (subst fetch_Inr) simp_all
  moreover have "\<exists>x. fetch (attrib_vertices a) 3 (vertex_index ix) 2 = Inr x"
    using v by (subst fetch_Inr) simp_all
  moreover have "\<exists>x. fetch (attrib_texcoords a) 2 (texcoord_index ix) 0 = Inr x"
    using t by (subst fetch_Inr) simp_all
  moreover have "\<exists>x. fetch (attrib_texcoords a) 2 (texcoord_index ix) 1 = Inr x"
    using t by (subst fetch_Inr) simp_all
  ultimately show ?thesis
    by (auto simp: candidate_def ub_bind_def)
qed

lemma candidates_in_range:
  "list_all (reference_in_range a) ixs \<Longrightarrow> \<exists>cs. candidates a ixs = Inr cs"
proof (induction ixs)
  case Nil
  show ?case by simp
next
  case (Cons ix ixs)
  then obtain c cs where "candidate a ix = Inr c" "candidates a ixs = Inr cs"
    using candidate_in_range [of a ix] by auto
  then show ?case by (simp add: ub_bind_def)
qed

lemma candidate_color:
  "candidate a ix = Inr c \<Longrightarrow> color c = Vec4 one_f one_f one_f one_f"
  by (auto simp: candidate_def ub_bind_def split: sum.splits)

lemma candidates_color:
  "candidates a ixs = Inr cs \<Longrightarrow> c \<in> set cs \<Longrightarrow> color c = Vec4 one_f one_f one_f one_f"
proof (induction ixs arbitrary: cs)
  case Nil
  then show ?case by simp
next
  case (Cons ix ixs)
  then show ?case
    by (auto simp: ub_bind_def candidate_color split: sum.splits)
qed

lemma float_eq_one: "float_eq one_f one_f"
  by (simp add: float_eq_def isnan_def one_f_def)

lemma Vertex_eq_white:
  "color c = Vec4 one_f one_f one_f one_f \<Longrightarrow> color d = Vec4 one_f one_f one_f one_f \<Longrightarrow>
   Vertex_eq c d = same_attributes c d"
  by (simp add: Vertex_eq_def same_attributes_def vec4_eq_def float_eq_one)

lemma first_seen_distinct_combinations:
  assumes "candidates a ixs = Inr cs"
  shows "length (first_seen Vertex_eq [] cs) = distinct_combinations cs"
proof -
  have "length (first_seen Vertex_eq [] cs) = count_distinct Vertex_eq cs"
    using first_seen_count [of Vertex_eq "[]" cs, OF Vertex_eq_sym Vertex_eq_trans]
    by simp
  also have "\<dots> = count_distinct same_attributes cs"
    by (rule count_distinct_cong) (simp add: Vertex_eq_white candidates_color [OF assms])
  finally show ?thesis by (simp add: distinct_combinations_def)
qed

lemmas float_simps = float_eq_def isnan_def iszero_def one_f_def zero_f_def nan_f_def
lemmas fetch_simps = fetch_def int_mul_add_def int_in_range_def vector_at_def ub_bind_def
lemmas loader_simps = loadModel_def loadModel_body_def umap_count_def umap_index_def
  candidate_def Vertex_eq_def vec4_eq_def vec2_eq_def empty_model_def

lemma canonical_eq_iff:
  assumes "\<not> isnan a" and "\<not> isnan b"
  shows "float_eq a b \<longleftrightarrow> canonical a = canonical b"
proof -
  have z: "iszero (Float32 0)" by (simp add: iszero_def)
  show ?thesis
  proof (cases "iszero a")
    case True
    then show ?thesis using assms z by (auto simp: float_eq_def canonical_def)
  next
    case False
    then show ?thesis using assms z by (auto simp: float_eq_def canonical_def)
  qed
qed

lemma same_attributes_pair:
  assumes "\<not> has_nan c" and "\<not> has_nan d"
  shows "same_attributes c d \<longleftrightarrow> attribute_pair c = attribute_pair d"
  using assms
  by (simp add: same_attributes_def attribute_pair_def vec4_eq_def vec2_eq_def has_nan_def
      canonical_eq_iff)

lemma count_distinct_image:
  assumes "\<And>c d. c \<in> set cs \<Longrightarrow> d \<in> set cs \<Longrightarrow> eq c d = (f c = f d)"
  shows "count_distinct eq cs = card (set (map f cs))"
  using assms
proof (induction cs)
  case Nil
  show ?case by simp
next
  case (Cons c cs)
  have ih: "count_distinct eq cs = card (set (map f cs))"
    by (rule Cons.IH) (simp add: Cons.prems)
  have "list_ex (eq c) cs \<longleftrightarrow> f c \<in> set (map f cs)"
    using Cons.prems [of c] by (auto simp: list_ex_iff)
  then show ?case
    using ih by (simp add: card_insert_if)
qed

lemma combination_count_distinct:
  assumes "list_all (\<lambda>c. \<not> has_nan c) cs"
  shows "combination_count cs = distinct_combinations cs"
proof -
  have "count_distinct same_attributes cs = card (set (map attribute_pair cs))"
  proof (rule count_distinct_image)
    fix c d
    assume "c \<in> set cs" and "d \<in> set cs"
    then have "\<not> has_nan c" and "\<not> has_nan d"
      using assms by (simp_all add: list_all_iff)
    then show "same_attributes c d = (attribute_pair c = attribute_pair d)"
      by (rule same_attributes_pair)
  qed
  then show ?thesis
    by (simp add: combination_count_def distinct_combinations_def)
qed

lemma fan_in_range: "list_all (reference_in_range (attrib fan_mesh)) (concat (shapes fan_mesh))"
  by (simp add: fan_mesh_def reference_in_range_def ref_def)

lemma fan_candidates: "candidates (attrib fan_mesh) (concat (shapes fan_mesh)) = Inr fan_stream"
  by (simp add: fan_mesh_def fan_stream_def white_def ref_def candidate_def fetch_simps)

lemma fan_distinct: "distinct_combinations fan_stream = 6"
  by (simp add: fan_stream_def white_def distinct_combinations_def same_attributes_def
      vec4_eq_def vec2_eq_def float_simps)

lemma fan_without_nan: "list_all (\<lambda>c. \<not> has_nan c) fan_stream"
  by (simp add: fan_stream_def white_def has_nan_def float_simps)

lemma fan_combinations: "combination_count fan_stream = 6"
  using combination_count_distinct [OF fan_without_nan] fan_distinct by simp

text \<open>
  Claim C1, amended. When every face-vertex reference lies inside the position and the
  texture-coordinate arrays, \<^const>\<open>loadModel\<close>, called on the empty lists as \<^verbatim>\<open>main\<close>
  does, returns an index list with one entry for each reference and only indices below
  the length of the vertex list; and when no candidate of the stream has a NaN, the
  vertex list has as many entries as the stream has distinct (position, texcoord)
  combinations.
\<close>

theorem loadModel_dedup:
  assumes "list_all (reference_in_range (attrib ob)) (concat (shapes ob))"
  shows "\<exists>cs g. candidates (attrib ob) (concat (shapes ob)) = Inr cs \<and>
           loadModel ob empty_model = Inr g \<and>
           length (indices g) = length (concat (shapes ob)) \<and>
           list_all (\<lambda>i. unat i < length (vertices g)) (indices g) \<and>
           (list_all (\<lambda>c. \<not> has_nan c) cs \<longrightarrow>
              length (vertices g) = combination_count cs)"
proof -
  obtain cs where cs: "candidates (attrib ob) (concat (shapes ob)) = Inr cs"
    using candidates_in_range [OF assms] by blast
  let ?s = "fold loadModel_body cs ([], empty_model)"
  have g: "loadModel ob empty_model = Inr (snd ?s)"
    by (rule loadModel_Inr [OF cs])
  have "vertices (snd ?s) = first_seen Vertex_eq [] cs"
    using run_vertices [of cs "[]" empty_model] by (simp add: empty_model_def)
  then have "length (vertices (snd ?s)) = distinct_combinations cs"
    by (simp add: first_seen_distinct_combinations [OF cs])
  then have v: "length (vertices (snd ?s)) = combination_count cs"
    if "list_all (\<lambda>c. \<not> has_nan c) cs"
    using combination_count_distinct [OF that] by simp
  have i: "length (indices (snd ?s)) = length (concat (shapes ob))"
    using run_indices [of cs "[]" empty_model] candidates_length [OF cs]
    by (auto simp: empty_model_def)
  have "in_bounds ([], empty_model)" by (simp add: in_bounds_def empty_model_def)
  then have "in_bounds ?s" by (rule in_bounds_run)
  then have b: "list_all (\<lambda>i. unat i < length (vertices (snd ?s))) (indices (snd ?s))"
    by (simp add: in_bounds_def)
  show ?thesis using cs g v i b by blast
qed

theorem loadModel_dedup_witness:
  "list_all (reference_in_range (attrib fan_mesh)) (concat (shapes fan_mesh)) \<and>
   length (concat (shapes fan_mesh)) = 9 \<and>
   candidates (attrib fan_mesh) (concat (shapes fan_mesh)) = Inr fan_stream \<and>
   list_all (\<lambda>c. \<not> has_nan c) fan_stream \<and>
   combination_count fan_stream = 6 \<and>
   (\<exists>g. loadModel fan_mesh empty_model = Inr g \<and> length (vertices g) = 6 \<and>
        length (indices g) = 9 \<and> list_all (\<lambda>i. unat i < 6) (indices g))"
proof -
  obtain cs g where "candidates (attrib fan_mesh) (concat (shapes fan_mesh)) = Inr cs"
    "loadModel fan_mesh empty_model = Inr g"
    "length (indices g) = length (concat (shapes fan_mesh))"
    "list_all (\<lambda>i. unat i < length (vertices g)) (indices g)"
    "list_all (\<lambda>c. \<not> has_nan c) cs \<longrightarrow> length (vertices g) = combination_count cs"
    using loadModel_dedup [OF fan_in_range] by blast
  moreover have "length (concat (shapes fan_mesh)) = 9" by (simp add: fan_mesh_def)
  ultimately show ?thesis
    using fan_in_range fan_candidates fan_without_nan fan_combinations by auto
qed

text \<open>
  Claim C1 as stated, for every mesh input, fails in two ways. A file without texture
  coordinates gives references whose \<^verbatim>\<open>texcoord_index\<close> is \<open>-1\<close>, and the loader reads
  \<^verbatim>\<open>attrib.texcoords\<close> outside the array. In \<open>nan_triangle\<close> all references can be read
  and the three of them name one combination, whose position has a NaN: the comparison
  of the map never finds it again, and the loader stores three vertices.
\<close>

theorem loadModel_dedup_fails:
  "\<not> list_all (reference_in_range (attrib triangle_without_texcoords))
        (concat (shapes triangle_without_texcoords)) \<and>
   loadModel triangle_without_texcoords empty_model = Inl OutOfRange \<and>
   list_all (reference_in_range (attrib nan_triangle)) (concat (shapes nan_triangle)) \<and>
   candidates (attrib nan_triangle) (concat (shapes nan_triangle)) =
     Inr [white nan_f zero_f zero_f, white nan_f zero_f zero_f, white nan_f zero_f zero_f] \<and>
   combination_count
     [white nan_f zero_f zero_f, white nan_f zero_f zero_f, white nan_f zero_f zero_f] = 1 \<and>
   loadModel nan_triangle empty_model =
     Inr \<lparr>vertices =
            [white nan_f zero_f zero_f, white nan_f zero_f zero_f, white nan_f zero_f zero_f],
          indices = [0, 0, 0]\<rparr>"
proof -
  have "\<not> list_all (reference_in_range (attrib triangle_without_texcoords))
        (concat (shapes triangle_without_texcoords))"
    "loadModel triangle_without_texcoords empty_model = Inl OutOfRange"
    by (simp_all add: triangle_without_texcoords_def reference_in_range_def ref_def
        loadModel_def candidate_def fetch_simps)
  moreover have
    "list_all (reference_in_range (attrib nan_triangle)) (concat (shapes nan_triangle))"
    by (simp add: nan_triangle_def reference_in_range_def ref_def)
  moreover have "candidates (attrib nan_triangle) (concat (shapes nan_triangle)) =
     Inr [white nan_f zero_f zero_f, white nan_f zero_f zero_f, white nan_f zero_f zero_f]"
    by (simp add: nan_triangle_def white_def ref_def candidate_def fetch_simps)
  moreover have "combination_count
     [white nan_f zero_f zero_f, white nan_f zero_f zero_f, white nan_f zero_f zero_f] = 1"
    by (simp add: combination_count_def)
  moreover have "loadModel nan_triangle empty_model =
     Inr \<lparr>vertices =
            [white nan_f zero_f zero_f, white nan_f zero_f zero_f, white nan_f zero_f zero_f],
          indices = [0, 0, 0]\<rparr>"
    by (simp add: nan_triangle_def white_def ref_def fetch_simps loader_simps float_simps)
  ultimately show ?thesis by blast
qed

lemma float_eq_refl_iff: "float_eq a a \<longleftrightarrow> \<not> isnan a"
  by (simp add: float_eq_def)

lemma Vertex_eq_refl_iff: "Vertex_eq v v \<longleftrightarrow> \<not> has_nan v"
  by (simp add: Vertex_eq_def vec4_eq_def vec2_eq_def has_nan_def float_eq_refl_iff)

lemma loadModel_Inr_candidates:
  assumes "loadModel ob g = Inr g'"
  obtains cs where "candidates (attrib ob) (concat (shapes ob)) = Inr cs"
    "g' = snd (fold loadModel_body cs ([], g))"
proof (cases "candidates (attrib ob) (concat (shapes ob))")
  case (Inl e)
  then show ?thesis using assms loadModel_Inl [OF Inl, of g] by simp
next
  case (Inr cs)
  then show ?thesis using assms loadModel_Inr [OF Inr, of g] that by simp
qed

text \<open>
  The loader finishes exactly on the meshes whose references can all be read.
\<close>

lemma fetch_Inr_D:
  assumes "fetch xs k i c = Inr x"
  shows "int_in_range (k * i + c) \<and> 0 \<le> k * i + c \<and> k * i + c < int (length xs)"
  using assms
  by (auto simp: fetch_def int_mul_add_def vector_at_def ub_bind_def nat_less_iff
      split: if_splits)

lemma candidate_Inr_D:
  assumes "candidate a ix = Inr c"
  shows "reference_in_range a ix"
proof -
  obtain px pz tu tv where f:
    "fetch (attrib_vertices a) 3 (vertex_index ix) 0 = Inr px"
    "fetch (attrib_vertices a) 3 (vertex_index ix) 2 = Inr pz"
    "fetch (attrib_texcoords a) 2 (texcoord_index ix) 0 = Inr tu"
    "fetch (attrib_texcoords a) 2 (texcoord_index ix) 1 = Inr tv"
    using assms by (auto simp: candidate_def ub_bind_def split: sum.splits)
  show ?thesis
    using fetch_Inr_D [OF f(1)] fetch_Inr_D [OF f(2)] fetch_Inr_D [OF f(3)] fetch_Inr_D [OF f(4)]
    by (simp add: reference_in_range_def int_in_range_def)
qed

lemma candidates_Inr_D:
  "candidates a ixs = Inr cs \<Longrightarrow> list_all (reference_in_range a) ixs"
  by (induction ixs arbitrary: cs)
    (auto simp: ub_bind_def candidate_Inr_D split: sum.splits)

lemma loadModel_defined_iff:
  "(\<exists>g'. loadModel ob g = Inr g') \<longleftrightarrow>
   list_all (reference_in_range (attrib ob)) (concat (shapes ob))"
proof
  assume "\<exists>g'. loadModel ob g = Inr g'"
  then obtain g' where "loadModel ob g = Inr g'" by blast
  then obtain cs where "candidates (attrib ob) (concat (shapes ob)) = Inr cs"
    by (rule loadModel_Inr_candidates)
  then show "list_all (reference_in_range (attrib ob)) (concat (shapes ob))"
    by (rule candidates_Inr_D)
next
  assume "list_all (reference_in_range (attrib ob)) (concat (shapes ob))"
  then obtain cs where "candidates (attrib ob) (concat (shapes ob)) = Inr cs"
    using candidates_in_range by blast
  then show "\<exists>g'. loadModel ob g = Inr g'"
    using loadModel_Inr by blast
qed

text \<open>
  Claim C4, amended. \<^const>\<open>loadModel\<close> appends to the program-wide lists and never
  clears them. A second run on the same mesh, on the lists the first run left, finishes
  whenever the first did; afterwards the vertex list is the first run's list twice, the
  index list is twice as long and begins with the first run's indices. The lists after the
  second run equal those after the first exactly when the mesh has no reference.
\<close>

theorem loadModel_twice:
  assumes "loadModel ob empty_model = Inr g1"
  shows "\<exists>g2. loadModel ob g1 = Inr g2 \<and>
           vertices g2 = vertices g1 @ vertices g1 \<and>
           length (indices g2) = 2 * length (indices g1) \<and>
           take (length (indices g1)) (indices g2) = indices g1 \<and>
           (g2 = g1 \<longleftrightarrow> concat (shapes ob) = [])"
proof -
  obtain cs where cs: "candidates (attrib ob) (concat (shapes ob)) = Inr cs"
    and g1: "g1 = snd (fold loadModel_body cs ([], empty_model))"
    using assms by (rule loadModel_Inr_candidates)
  let ?g2 = "snd (fold loadModel_body cs ([], g1))"
  have r: "loadModel ob g1 = Inr ?g2" by (rule loadModel_Inr [OF cs])
  have v1: "vertices g1 = first_seen Vertex_eq [] cs"
    using run_vertices [of cs "[]" empty_model] g1 by (simp add: empty_model_def)
  have v2: "vertices ?g2 = vertices g1 @ vertices g1"
    using run_vertices [of cs "[]" g1] v1 by simp
  have i1: "length (indices g1) = length cs"
    using run_indices [of cs "[]" empty_model] g1 by (auto simp: empty_model_def)
  obtain js where js: "indices ?g2 = indices g1 @ js" "length js = length cs"
    using run_indices [of cs "[]" g1] by blast
  have l: "length cs = length (concat (shapes ob))" by (rule candidates_length [OF cs])
  have e: "?g2 = g1 \<longleftrightarrow> concat (shapes ob) = []"
  proof
    assume "?g2 = g1"
    then have "length (indices ?g2) = length (indices g1)" by simp
    with js i1 l show "concat (shapes ob) = []" by simp
  next
    assume "concat (shapes ob) = []"
    with l have "cs = []" by simp
    then show "?g2 = g1" by simp
  qed
  show ?thesis using r v2 js i1 e by auto
qed

lemma triangle_once:
  "loadModel triangle_mesh empty_model = Inr \<lparr>vertices = triangle_vertices, indices = [0, 1, 2]\<rparr>"
  by (simp add: triangle_mesh_def triangle_vertices_def white_def ref_def fetch_simps
      loader_simps float_simps)

lemma triangle_again:
  "loadModel triangle_mesh \<lparr>vertices = triangle_vertices, indices = [0, 1, 2]\<rparr> =
     Inr \<lparr>vertices = triangle_vertices @ triangle_vertices, indices = [0, 1, 2, 3, 4, 5]\<rparr>"
  by (simp add: triangle_mesh_def triangle_vertices_def white_def ref_def fetch_simps
      loader_simps float_simps)

text \<open>
  Claim C4 as stated fails for one triangle: the first run leaves three vertices and three
  indices, the second run six of each.
\<close>

theorem loadModel_twice_differs:
  "loadModel triangle_mesh empty_model =
     Inr \<lparr>vertices = triangle_vertices, indices = [0, 1, 2]\<rparr> \<and>
   loadModel triangle_mesh \<lparr>vertices = triangle_vertices, indices = [0, 1, 2]\<rparr> =
     Inr \<lparr>vertices = triangle_vertices @ triangle_vertices, indices = [0, 1, 2, 3, 4, 5]\<rparr> \<and>
   \<lparr>vertices = triangle_vertices @ triangle_vertices, indices = [0, 1, 2, 3, 4, 5]\<rparr> \<noteq>
     \<lparr>vertices = triangle_vertices, indices = [0, 1, 2]\<rparr>"
  using triangle_once triangle_again by simp

theorem loadModel_twice_witness:
  "loadModel triangle_mesh empty_model =
     Inr \<lparr>vertices = triangle_vertices, indices = [0, 1, 2]\<rparr> \<and>
   (\<exists>g2. loadModel triangle_mesh \<lparr>vertices = triangle_vertices, indices = [0, 1, 2]\<rparr> = Inr g2 \<and>
         vertices g2 = triangle_vertices @ triangle_vertices \<and>
         length (indices g2) = 6 \<and> take 3 (indices g2) = [0, 1, 2] \<and>
         g2 \<noteq> \<lparr>vertices = triangle_vertices, indices = [0, 1, 2]\<rparr>)"
proof -
  let ?g1 = "\<lparr>vertices = triangle_vertices, indices = [0, 1, 2]\<rparr>"
  obtain g2 where g2: "loadModel triangle_mesh ?g1 = Inr g2"
    "vertices g2 = vertices ?g1 @ vertices ?g1"
    "length (indices g2) = 2 * length (indices ?g1)"
    "take (length (indices ?g1)) (indices g2) = indices ?g1"
    "g2 = ?g1 \<longleftrightarrow> concat (shapes triangle_mesh) = []"
    using loadModel_twice [OF triangle_once] by blast
  have "concat (shapes triangle_mesh) \<noteq> []" by (simp add: triangle_mesh_def)
  with g2(5) have "g2 \<noteq> ?g1" by simp
  with g2 triangle_once show ?thesis by (simp add: numeral_3_eq_3)
qed

text \<open>
  Claim C9, amended. When the references of a mesh can be read and the mesh has at most
  \<open>2 ^ 32\<close> distinct combinations, the loader writes one index for each reference, and for
  every reference \<open>k\<close> whose candidate has no NaN the vertex at position \<open>indices[k]\<close>
  compares equal to that candidate.
\<close>

theorem loadModel_lossless:
  assumes cs: "candidates (attrib ob) (concat (shapes ob)) = Inr cs"
    and bound: "distinct_combinations cs \<le> 2 ^ 32"
  shows "\<exists>g. loadModel ob empty_model = Inr g \<and> length (indices g) = length cs \<and>
           (\<forall>k < length cs. \<not> has_nan (cs ! k) \<longrightarrow>
              unat (indices g ! k) < length (vertices g) \<and>
              Vertex_eq (vertices g ! unat (indices g ! k)) (cs ! k))"
proof -
  let ?s = "fold loadModel_body cs ([], empty_model)"
  have g: "loadModel ob empty_model = Inr (snd ?s)"
    by (rule loadModel_Inr [OF cs])
  have "vertices (snd ?s) = first_seen Vertex_eq [] cs"
    using run_vertices [of cs "[]" empty_model] by (simp add: empty_model_def)
  then have "length (vertices (snd ?s)) \<le> 2 ^ 32"
    using bound by (simp add: first_seen_distinct_combinations [OF cs])
  then have "faithful cs ?s" by (rule faithful_run)
  then have "length (indices (snd ?s)) = length cs \<and>
      (\<forall>k < length cs. \<not> has_nan (cs ! k) \<longrightarrow>
         unat (indices (snd ?s) ! k) < length (vertices (snd ?s)) \<and>
         Vertex_eq (vertices (snd ?s) ! unat (indices (snd ?s) ! k)) (cs ! k))"
    by (simp add: faithful_def Vertex_eq_refl_iff)
  with g show ?thesis by blast
qed

theorem loadModel_lossless_witness:
  "candidates (attrib fan_mesh) (concat (shapes fan_mesh)) = Inr fan_stream \<and>
   distinct_combinations fan_stream \<le> 2 ^ 32 \<and>
   8 < length fan_stream \<and> \<not> has_nan (fan_stream ! 8) \<and>
   (\<exists>g. loadModel fan_mesh empty_model = Inr g \<and> length (indices g) = 9 \<and>
        unat (indices g ! 8) < length (vertices g) \<and>
        Vertex_eq (vertices g ! unat (indices g ! 8)) (fan_stream ! 8))"
proof -
  have n: "8 < length fan_stream" "\<not> has_nan (fan_stream ! 8)" "length fan_stream = 9"
    by (simp_all add: fan_stream_def white_def has_nan_def float_simps)
  have b: "distinct_combinations fan_stream \<le> 2 ^ 32"
    by (simp add: fan_distinct)
  obtain g where "loadModel fan_mesh empty_model = Inr g"
    "length (indices g) = length fan_stream"
    "\<forall>k < length fan_stream. \<not> has_nan (fan_stream ! k) \<longrightarrow>
       unat (indices g ! k) < length (vertices g) \<and>
       Vertex_eq (vertices g ! unat (indices g ! k)) (fan_stream ! k)"
    using loadModel_lossless [OF fan_candidates b] by blast
  with n b fan_candidates show ?thesis by auto
qed

text \<open>
  A NaN in a position: the candidate equals no key, so the second \<^verbatim>\<open>operator[]\<close> of the
  loop body inserts a fresh entry and returns its value-initialised index 0. The index of
  the second reference leads to the first vertex.
\<close>

lemma nan_mesh_lossy:
  "candidates (attrib nan_mesh) (concat (shapes nan_mesh)) =
     Inr [white zero_f zero_f zero_f, white nan_f zero_f zero_f] \<and>
   loadModel nan_mesh empty_model =
     Inr \<lparr>vertices = [white zero_f zero_f zero_f, white nan_f zero_f zero_f],
          indices = [0, 0]\<rparr> \<and>
   \<not> Vertex_eq ([white zero_f zero_f zero_f, white nan_f zero_f zero_f] ! unat ([0, 0 :: 32 word] ! 1))
        (white nan_f zero_f zero_f) \<and>
   [white zero_f zero_f zero_f, white nan_f zero_f zero_f] ! unat ([0, 0 :: 32 word] ! 1) \<noteq>
     white nan_f zero_f zero_f"
  by (simp add: nan_mesh_def white_def ref_def fetch_simps loader_simps float_simps)

text \<open>
  More than \<open>2 ^ 32\<close> different vertices: the conversion of the size of the vertex list to
  \<^verbatim>\<open>uint32_t\<close> wraps around.
\<close>

lemma run_all_new:
  assumes "\<forall>c \<in> set cs. Vertex_eq c c"
    and "\<forall>i < length cs. \<forall>j < i. \<not> Vertex_eq (cs ! j) (cs ! i)"
  shows "fold loadModel_body cs ([], empty_model) =
     (zip cs (map word_of_nat [0..<length cs]),
      \<lparr>vertices = cs, indices = map word_of_nat [0..<length cs]\<rparr>)"
  using assms
proof (induction cs rule: rev_induct)
  case Nil
  show ?case by (simp add: empty_model_def)
next
  case (snoc c cs)
  let ?m = "zip cs (map word_of_nat [0..<length cs]) :: umap"
  let ?g = "\<lparr>vertices = cs, indices = map word_of_nat [0..<length cs]\<rparr>"
  have r: "\<forall>c \<in> set cs. Vertex_eq c c" using snoc.prems(1) by simp
  have d: "\<forall>i < length cs. \<forall>j < i. \<not> Vertex_eq (cs ! j) (cs ! i)"
  proof (intro allI impI)
    fix i j assume "i < length cs" "j < i"
    then show "\<not> Vertex_eq (cs ! j) (cs ! i)"
      using snoc.prems(2) [rule_format, of i j] by (simp add: nth_append)
  qed
  have ih: "fold loadModel_body cs ([], empty_model) = (?m, ?g)"
    using snoc.IH [OF r d] .
  have "\<not> Vertex_eq k c" if k: "k \<in> set cs" for k
  proof -
    obtain j where "j < length cs" "cs ! j = k" using k by (auto simp: in_set_conv_nth)
    then show ?thesis
      using snoc.prems(2) [rule_format, of "length cs" j] by (simp add: nth_append)
  qed
  then have "\<not> list_ex (\<lambda>k. Vertex_eq k c) (map fst ?m)"
    by (simp add: list_ex_iff)
  then have n: "umap_find ?m c = None" by (simp add: umap_find_None_iff)
  have "Vertex_eq c c" using snoc.prems(1) by simp
  from body_new [OF n this, of ?g] show ?case
    by (simp add: ih)
qed

lemma index_wraps_beyond_uint32:
  assumes "\<forall>c \<in> set cs. Vertex_eq c c"
    and "\<forall>i < length cs. \<forall>j < i. \<not> Vertex_eq (cs ! j) (cs ! i)"
    and "length cs = 2 ^ 32 + 1"
    and "g = snd (fold loadModel_body cs ([], empty_model))"
  shows "indices g ! (2 ^ 32) = 0 \<and>
         \<not> Vertex_eq (vertices g ! unat (indices g ! (2 ^ 32))) (cs ! (2 ^ 32))"
proof -
  have g: "g = \<lparr>vertices = cs, indices = map word_of_nat [0..<length cs]\<rparr>"
    using run_all_new [OF assms(1,2)] assms(4) by simp
  have l: "(2 ^ 32 :: nat) < length cs" using assms(3) by simp
  have "indices g ! (2 ^ 32) = (word_of_nat (2 ^ 32) :: 32 word)"
    unfolding g using l by (simp del: upt_Suc)
  also have "\<dots> = 0" by simp
  finally have i: "indices g ! (2 ^ 32) = 0" .
  have "\<not> Vertex_eq (cs ! 0) (cs ! (2 ^ 32))"
    using assms(2) [rule_format, of "2 ^ 32" 0] l by simp
  then show ?thesis using i by (simp add: g)
qed

lemma unat_small: "i < 2 ^ 23 \<Longrightarrow> unat (word_of_nat i :: 32 word) = i"
  by (simp add: unat_of_nat)

lemma drop_bit_small: "i < 2 ^ 23 \<Longrightarrow> drop_bit 23 (word_of_nat i :: 32 word) = 0"
proof -
  assume a: "i < 2 ^ 23"
  have "unat (drop_bit 23 (word_of_nat i :: 32 word)) = drop_bit 23 i"
    using a by (simp add: unat_drop_bit_eq unat_small)
  also have "\<dots> = 0" using a by (simp add: drop_bit_eq_div)
  finally show ?thesis by (simp add: unat_eq_0)
qed

lemma word_of_nat_small_inj: "i < 2 ^ 23 \<Longrightarrow> j < 2 ^ 23 \<Longrightarrow> (word_of_nat i :: 32 word) = word_of_nat j \<Longrightarrow> i = j"
proof -
  assume a: "i < 2 ^ 23" "j < 2 ^ 23" and e: "(word_of_nat i :: 32 word) = word_of_nat j"
  have "unat (word_of_nat i :: 32 word) = unat (word_of_nat j :: 32 word)"
    by (simp only: e)
  then show "i = j" by (simp only: unat_small [OF a(1)] unat_small [OF a(2)])
qed

lemma and_small_zero: "i < 2 ^ 23 \<Longrightarrow> (word_of_nat i :: 32 word) AND 0x7FFFFFFF = 0 \<Longrightarrow> i = 0"
proof -
  assume a: "i < 2 ^ 23" and z: "(word_of_nat i :: 32 word) AND 0x7FFFFFFF = 0"
  have m: "(0x7FFFFFFF :: 32 word) = mask 31" by (simp add: mask_eq_exp_minus_1)
  have "(word_of_nat i :: 32 word) AND mask 31 = take_bit 31 (word_of_nat i)"
    by (simp add: take_bit_eq_mask)
  also have "\<dots> = word_of_nat (take_bit 31 i)"
    by (simp only: take_bit_of_nat)
  also have "take_bit 31 i = i"
    using a by (intro take_bit_nat_eq_self) simp
  finally have "(word_of_nat i :: 32 word) = 0" using z m by simp
  then have "unat (word_of_nat i :: 32 word) = 0" by simp
  then show "i = 0" using unat_small [OF a] by simp
qed

lemma small_not_nan: "i < 2 ^ 23 \<Longrightarrow> \<not> isnan (small_f i)"
  by (simp add: isnan_def small_f_def drop_bit_small)

lemma small_eq_iff:
  assumes "i < 2 ^ 23" and "j < 2 ^ 23"
  shows "float_eq (small_f i) (small_f j) \<longleftrightarrow> i = j"
proof
  assume "float_eq (small_f i) (small_f j)"
  then have "small_f i = small_f j \<or> iszero (small_f i) \<and> iszero (small_f j)"
    by (simp add: float_eq_def)
  then show "i = j"
  proof
    assume "small_f i = small_f j"
    then show ?thesis using word_of_nat_small_inj [OF assms] by (simp add: small_f_def)
  next
    assume "iszero (small_f i) \<and> iszero (small_f j)"
    then have "i = 0" "j = 0"
      using and_small_zero [OF assms(1)] and_small_zero [OF assms(2)] by (simp_all add: iszero_def small_f_def)
    then show ?thesis by simp
  qed
next
  assume "i = j"
  then show "float_eq (small_f i) (small_f j)"
    using small_not_nan [OF assms(1)] by (simp add: float_eq_def)
qed

lemma float_eq_zero: "float_eq zero_f zero_f"
  by (simp add: float_eq_def isnan_def zero_f_def)

lemma grid_vertex_eq_iff:
  assumes "i < 2 ^ 23" "j < 2 ^ 23" "i' < 2 ^ 23" "j' < 2 ^ 23"
  shows "Vertex_eq (grid_vertex i j) (grid_vertex i' j') \<longleftrightarrow> i = i' \<and> j = j'"
  by (simp add: Vertex_eq_def vec4_eq_def vec2_eq_def grid_vertex_def float_eq_zero float_eq_one
      small_eq_iff [OF assms(1,3)] small_eq_iff [OF assms(2,4)])

lemma candidates_map:
  "(\<And>x. x \<in> set xs \<Longrightarrow> candidate a (f x) = Inr (g x)) \<Longrightarrow>
   candidates a (map f xs) = Inr (map g xs)"
  by (induction xs) (simp_all add: ub_bind_def)

lemma grid_candidate:
  assumes "i < p" "j < t" "p \<le> 2 ^ 20" "t \<le> 2 ^ 20"
  shows "candidate (attrib (grid_mesh p t n)) (ref (int i) (int j)) = Inr (grid_vertex i j)"
proof -
  let ?vs = "attrib_vertices (attrib (grid_mesh p t n))"
  let ?ts = "attrib_texcoords (attrib (grid_mesh p t n))"
  have lv: "length ?vs = 3 * p" and lt: "length ?ts = 2 * t"
    by (simp_all add: grid_mesh_def)
  have bi: "3 * int i + 2 < 2 ^ 31" "2 * int j + 1 < 2 ^ 31"
    using assms by simp_all
  have v: "fetch ?vs 3 (int i) c = Inr (?vs ! nat (3 * int i + c))" if "c \<in> {0, 1, 2}" for c
    using that assms(1) bi(1) lv by (intro fetch_Inr) auto
  have t: "fetch ?ts 2 (int j) c = Inr (?ts ! nat (2 * int j + c))" if "c \<in> {0, 1}" for c
    using that assms(2) bi(2) lt by (intro fetch_Inr) auto
  have nv: "?vs ! (3 * i + c) = (if c = 0 then small_f i else zero_f)" if "c < 3" for c
  proof -
    have "3 * i + c < 3 * p" using that assms(1) by simp
    then have "?vs ! (3 * i + c) =
        (if (3 * i + c) mod 3 = 0 then small_f ((3 * i + c) div 3) else zero_f)"
      by (simp add: grid_mesh_def del: upt_Suc)
    then show ?thesis using that by simp
  qed
  have nt: "?ts ! (2 * j + c) = (if c = 0 then small_f j else zero_f)" if "c < 2" for c
  proof -
    have "2 * j + c < 2 * t" using that assms(2) by simp
    then have "?ts ! (2 * j + c) =
        (if (2 * j + c) mod 2 = 0 then small_f ((2 * j + c) div 2) else zero_f)"
      by (simp add: grid_mesh_def del: upt_Suc)
    then show ?thesis using that by simp
  qed
  have n: "nat (3 * int i + 0) = 3 * i + 0" "nat (3 * int i + 1) = 3 * i + 1"
    "nat (3 * int i + 2) = 3 * i + 2" "nat (2 * int j + 0) = 2 * j + 0"
    "nat (2 * int j + 1) = 2 * j + 1"
    by (simp_all add: nat_add_distrib nat_mult_distrib)
  show ?thesis
    unfolding candidate_def grid_vertex_def
    by (simp only: ref_def index_t.simps v [of 0, simplified] v [of 1, simplified]
        v [of 2, simplified] t [of 0, simplified] t [of 1, simplified] ub_bind_def sum.case n
        nv nt)
      (simp add: nat_mult_distrib nv [of 0, simplified] nt [of 0, simplified])
qed


lemma grid_candidates:
  assumes "n \<le> p * t" "p \<le> 2 ^ 20" "t \<le> 2 ^ 20"
  shows "candidates (attrib (grid_mesh p t n)) (concat (shapes (grid_mesh p t n))) =
         Inr (map (\<lambda>k. grid_vertex (k div t) (k mod t)) [0..<n])"
proof -
  have "candidate (attrib (grid_mesh p t n)) (ref (int (k div t)) (int (k mod t))) =
        Inr (grid_vertex (k div t) (k mod t))" if "k \<in> set [0..<n]" for k
  proof -
    have k: "k < p * t" using that assms(1) by simp
    then have "0 < t" by (cases t) simp_all
    then have "k mod t < t" by simp
    moreover have "k div t < p"
      using k by (simp add: less_mult_imp_div_less)
    ultimately show ?thesis using assms(2,3) by (intro grid_candidate)
  qed
  then have "candidates (attrib (grid_mesh p t n))
       (map (\<lambda>k. ref (int (k div t)) (int (k mod t))) [0..<n]) =
     Inr (map (\<lambda>k. grid_vertex (k div t) (k mod t)) [0..<n])"
    by (rule candidates_map)
  moreover have "concat (shapes (grid_mesh p t n)) =
      map (\<lambda>k. ref (int (k div t)) (int (k mod t))) [0..<n]"
    by (simp add: grid_mesh_def)
  ultimately show ?thesis by simp
qed

lemma grid_stream_distinct:
  assumes "n \<le> p * t" "p \<le> 2 ^ 20" "t \<le> 2 ^ 20"
  defines "cs \<equiv> map (\<lambda>k. grid_vertex (k div t) (k mod t)) [0..<n]"
  shows "\<forall>c \<in> set cs. Vertex_eq c c"
    and "\<forall>i < length cs. \<forall>j < i. \<not> Vertex_eq (cs ! j) (cs ! i)"
proof -
  have b: "k div t < 2 ^ 23 \<and> k mod t < 2 ^ 23" if "k < n" for k
  proof -
    have k: "k < p * t" using that assms(1) by simp
    then have "0 < t" by (cases t) simp_all
    then have "k mod t < t" by simp
    moreover have "k div t < p" using k by (simp add: less_mult_imp_div_less)
    ultimately show ?thesis using assms(2,3) by simp
  qed
  show "\<forall>c \<in> set cs. Vertex_eq c c"
    using b by (auto simp: cs_def grid_vertex_eq_iff)
  show "\<forall>i < length cs. \<forall>j < i. \<not> Vertex_eq (cs ! j) (cs ! i)"
  proof (intro allI impI)
    fix i j assume i: "i < length cs" and j: "j < i"
    have n: "i < n" "j < n" using i j by (simp_all add: cs_def)
    have "Vertex_eq (cs ! j) (cs ! i) \<longleftrightarrow> j div t = i div t \<and> j mod t = i mod t"
      using n b [OF n(1)] b [OF n(2)] by (simp add: cs_def grid_vertex_eq_iff del: upt_Suc)
    moreover have "\<not> (j div t = i div t \<and> j mod t = i mod t)"
    proof
      assume "j div t = i div t \<and> j mod t = i mod t"
      then have "j = i" by (metis div_mult_mod_eq)
      with j show False by simp
    qed
    ultimately show "\<not> Vertex_eq (cs ! j) (cs ! i)" by simp
  qed
qed

lemma huge_mesh_wraps:
  "\<not> isl (loadModel huge_mesh empty_model) \<and>
   length (concat (shapes huge_mesh)) = 2 ^ 32 + 1 \<and>
   candidate (attrib huge_mesh) (concat (shapes huge_mesh) ! (2 ^ 32)) =
     Inr (grid_vertex (2 ^ 16) 0) \<and>
   \<not> has_nan (grid_vertex (2 ^ 16) 0) \<and>
   indices (projr (loadModel huge_mesh empty_model)) ! (2 ^ 32) = 0 \<and>
   \<not> Vertex_eq
       (vertices (projr (loadModel huge_mesh empty_model)) !
          unat (indices (projr (loadModel huge_mesh empty_model)) ! (2 ^ 32)))
       (grid_vertex (2 ^ 16) 0)"
proof -
  let ?p = "2 ^ 16 + 1 :: nat" and ?t = "2 ^ 16 :: nat" and ?n = "2 ^ 32 + 1 :: nat"
  let ?cs = "map (\<lambda>k. grid_vertex (k div ?t) (k mod ?t)) [0..<?n]"
  have a: "?n \<le> ?p * ?t" "?p \<le> 2 ^ 20" "?t \<le> 2 ^ 20" by simp_all
  have c: "candidates (attrib huge_mesh) (concat (shapes huge_mesh)) = Inr ?cs"
    unfolding huge_mesh_def by (rule grid_candidates [OF a])
  let ?g = "snd (fold loadModel_body ?cs ([], empty_model))"
  have g: "loadModel huge_mesh empty_model = Inr ?g"
    by (rule loadModel_Inr [OF c])
  have l: "length ?cs = 2 ^ 32 + 1" by (simp del: upt_Suc)
  have k: "?cs ! (2 ^ 32) = grid_vertex (2 ^ 16) 0"
  proof -
    have "(2 ^ 32 :: nat) < ?n" by simp
    then have "?cs ! (2 ^ 32) = grid_vertex (2 ^ 32 div ?t) (2 ^ 32 mod ?t)"
      by (simp del: upt_Suc)
    then show ?thesis by simp
  qed
  have w: "indices ?g ! (2 ^ 32) = 0 \<and>
      \<not> Vertex_eq (vertices ?g ! unat (indices ?g ! (2 ^ 32))) (?cs ! (2 ^ 32))"
    by (rule index_wraps_beyond_uint32 [OF grid_stream_distinct [OF a] l refl])
  have r: "concat (shapes huge_mesh) ! (2 ^ 32) = ref (int (2 ^ 16)) (int 0)"
  proof -
    have "(2 ^ 32 :: nat) < ?n" by simp
    then have "concat (shapes huge_mesh) ! (2 ^ 32) =
        ref (int (2 ^ 32 div ?t)) (int (2 ^ 32 mod ?t))"
      by (simp add: huge_mesh_def grid_mesh_def del: upt_Suc)
    then show ?thesis by simp
  qed
  have x: "candidate (attrib huge_mesh) (ref (int (2 ^ 16)) (int 0)) =
      Inr (grid_vertex (2 ^ 16) 0)"
    unfolding huge_mesh_def by (rule grid_candidate) simp_all
  have cand: "candidate (attrib huge_mesh) (concat (shapes huge_mesh) ! (2 ^ 32)) =
      Inr (grid_vertex (2 ^ 16) 0)"
    by (simp only: r x)
  have len: "length (concat (shapes huge_mesh)) = 2 ^ 32 + 1"
    using candidates_length [OF c] l by simp
  have "Vertex_eq (grid_vertex (2 ^ 16) 0) (grid_vertex (2 ^ 16) 0)"
    by (simp add: grid_vertex_eq_iff)
  then have nn: "\<not> has_nan (grid_vertex (2 ^ 16) 0)"
    by (simp add: Vertex_eq_refl_iff)
  have pr: "projr (loadModel huge_mesh empty_model) = ?g" "\<not> isl (loadModel huge_mesh empty_model)"
    by (simp_all add: g)
  have "\<not> Vertex_eq (vertices ?g ! unat (indices ?g ! (2 ^ 32))) (grid_vertex (2 ^ 16) 0)"
    using conjunct2 [OF w] by (simp only: k not_False_eq_True)
  then show ?thesis
    unfolding pr using pr(2) len cand nn w by blast
qed

text \<open>
  Claim C9 as stated fails in two ways. In \<open>nan_mesh\<close> the second reference has a NaN,
  and its index leads to the vertex of the first reference. In \<open>huge_mesh\<close> the last of
  the \<open>2 ^ 32 + 1\<close> references has a candidate without NaN that differs from all earlier
  ones; its index has wrapped around to 0 and leads to the vertex of the first reference.
\<close>

theorem loadModel_lossy:
  "loadModel nan_mesh empty_model =
     Inr \<lparr>vertices = [white zero_f zero_f zero_f, white nan_f zero_f zero_f],
          indices = [0, 0]\<rparr> \<and>
   candidates (attrib nan_mesh) (concat (shapes nan_mesh)) =
     Inr [white zero_f zero_f zero_f, white nan_f zero_f zero_f] \<and>
   [white zero_f zero_f zero_f, white nan_f zero_f zero_f] ! unat ([0, 0 :: 32 word] ! 1) \<noteq>
     white nan_f zero_f zero_f \<and>
   \<not> isl (loadModel huge_mesh empty_model) \<and>
   candidate (attrib huge_mesh) (concat (shapes huge_mesh) ! (2 ^ 32)) =
     Inr (grid_vertex (2 ^ 16) 0) \<and>
   \<not> has_nan (grid_vertex (2 ^ 16) 0) \<and>
   \<not> Vertex_eq
       (vertices (projr (loadModel huge_mesh empty_model)) !
          unat (indices (projr (loadModel huge_mesh empty_model)) ! (2 ^ 32)))
       (grid_vertex (2 ^ 16) 0)"
  using nan_mesh_lossy huge_mesh_wraps by blast

section \<open>Properties of the camera\<close>













section \<open>Properties of the builder and of the frame loop\<close>

lemma render_app: "app_state (render now w) = app_state w"
  by (simp add: render_def draw_def tick_def Let_def)

lemmas gl_defs = gl_log_def gl_error_def is_attached_def glCreateShader_def glCreateProgram_def
  glDeleteShader_def glAttachShader_def glDetachShader_def glDeleteProgram_def gl_program_call_def
  glProgramParameteri_def glLinkProgram_def glCreateProgramPipelines_def glUseProgramStages_def
  glDeleteProgramPipelines_def

lemmas build_defs = createShaderProgram_def createShader_def checkShader_def checkProgram_def

lemma build_quiet:
  assumes wf: "gl_wellformed g"
    and q: "\<not> check_reports ndebug (fst (vs_answer drv)) (snd (vs_answer drv))"
      "\<not> check_reports ndebug (fst (fs_answer drv)) (snd (fs_answer drv))"
      "\<not> check_reports ndebug (fst (link_answer drv)) (snd (link_answer drv))"
  shows "createShaderProgram ndebug drv source g =
     ((Suc (Suc (next_name g)), next_pipeline g),
      g\<lparr>calls := calls g @
           [CreateShader GL_VERTEX_SHADER, ShaderSource (next_name g) (fst source),
            CompileShader (next_name g),
            GetShaderiv (next_name g) GL_COMPILE_STATUS, GetShaderiv (next_name g) GL_INFO_LOG_LENGTH,
            CreateShader GL_FRAGMENT_SHADER, ShaderSource (Suc (next_name g)) (snd source),
            CompileShader (Suc (next_name g)),
            GetShaderiv (Suc (next_name g)) GL_COMPILE_STATUS,
            GetShaderiv (Suc (next_name g)) GL_INFO_LOG_LENGTH,
            CreateProgram,
            ProgramParameteri (Suc (Suc (next_name g))) GL_PROGRAM_SEPARABLE 1,
            AttachShader (Suc (Suc (next_name g))) (next_name g),
            AttachShader (Suc (Suc (next_name g))) (Suc (next_name g)),
            LinkProgram (Suc (Suc (next_name g))),
            GetProgramiv (Suc (Suc (next_name g))) GL_LINK_STATUS,
            GetProgramiv (Suc (Suc (next_name g))) GL_INFO_LOG_LENGTH,
            DetachShader (Suc (Suc (next_name g))) (next_name g), DeleteShader (next_name g),
            DetachShader (Suc (Suc (next_name g))) (Suc (next_name g)),
            DeleteShader (Suc (next_name g)),
            CreateProgramPipelines,
            UseProgramStages (next_pipeline g) (GL_VERTEX_SHADER_BIT OR GL_FRAGMENT_SHADER_BIT)
              (Suc (Suc (next_name g)))],
         next_name := Suc (Suc (Suc (next_name g))),
         programs := programs g @ [Suc (Suc (next_name g))],
         next_pipeline := Suc (next_pipeline g),
         pipelines := pipelines g @ [next_pipeline g]\<rparr>)"
    (is "_ = ?rhs")
proof -
  let ?n = "next_name g"
  have a: "?n \<notin> set (shaders g)" "Suc ?n \<notin> set (shaders g)"
    "Suc (Suc ?n) \<notin> set (programs g)"
    "(Suc (Suc ?n), ?n) \<notin> set (attached g)"
    "(Suc (Suc ?n), Suc ?n) \<notin> set (attached g)"
    "\<not> list_ex (\<lambda>a. snd a = ?n) (attached g)"
    "\<not> list_ex (\<lambda>a. snd a = Suc ?n) (attached g)"
    "?n \<notin> set (flagged g)" "Suc ?n \<notin> set (flagged g)" "?n \<noteq> 0"
    using wf by (auto simp: gl_wellformed_def list_all_iff list_ex_iff)
  have r: "removeAll (Suc (Suc ?n), ?n) (attached g) = attached g"
    "removeAll (Suc (Suc ?n), Suc ?n) (attached g) = attached g"
    "removeAll ?n (shaders g) = shaders g"
    "removeAll (Suc ?n) (shaders g) = shaders g"
    using a by simp_all
  define g1 where "g1 = snd (createShader ndebug (vs_answer drv) (fst source) GL_VERTEX_SHADER g)"
  have s1: "createShader ndebug (vs_answer drv) (fst source) GL_VERTEX_SHADER g = (?n, g1)"
    and g1: "g1 = g\<lparr>calls := calls g @
           [CreateShader GL_VERTEX_SHADER, ShaderSource ?n (fst source), CompileShader ?n,
            GetShaderiv ?n GL_COMPILE_STATUS, GetShaderiv ?n GL_INFO_LOG_LENGTH],
         next_name := Suc ?n, shaders := shaders g @ [?n]\<rparr>"
    using q(1) unfolding g1_def
    by (simp_all add: createShader_def checkShader_def glCreateShader_def gl_log_def Let_def)
  define g2 where "g2 = snd (createShader ndebug (fs_answer drv) (snd source) GL_FRAGMENT_SHADER g1)"
  have s2: "createShader ndebug (fs_answer drv) (snd source) GL_FRAGMENT_SHADER g1 = (Suc ?n, g2)"
    and g2: "g2 = g\<lparr>calls := calls g @
           [CreateShader GL_VERTEX_SHADER, ShaderSource ?n (fst source), CompileShader ?n,
            GetShaderiv ?n GL_COMPILE_STATUS, GetShaderiv ?n GL_INFO_LOG_LENGTH,
            CreateShader GL_FRAGMENT_SHADER, ShaderSource (Suc ?n) (snd source),
            CompileShader (Suc ?n),
            GetShaderiv (Suc ?n) GL_COMPILE_STATUS, GetShaderiv (Suc ?n) GL_INFO_LOG_LENGTH],
         next_name := Suc (Suc ?n), shaders := shaders g @ [?n, Suc ?n]\<rparr>"
    using q(2) unfolding g2_def g1
    by (simp_all add: createShader_def checkShader_def glCreateShader_def gl_log_def Let_def)
  define gp where "gp = snd (glCreateProgram g2)"
  have s3: "glCreateProgram g2 = (Suc (Suc ?n), gp)"
    unfolding gp_def g2 by (simp add: glCreateProgram_def gl_log_def Let_def)
  define g3 where "g3 = glProgramParameteri (Suc (Suc ?n)) GL_PROGRAM_SEPARABLE 1 gp"
  have g3: "g3 = g\<lparr>calls := calls g @
           [CreateShader GL_VERTEX_SHADER, ShaderSource ?n (fst source), CompileShader ?n,
            GetShaderiv ?n GL_COMPILE_STATUS, GetShaderiv ?n GL_INFO_LOG_LENGTH,
            CreateShader GL_FRAGMENT_SHADER, ShaderSource (Suc ?n) (snd source),
            CompileShader (Suc ?n),
            GetShaderiv (Suc ?n) GL_COMPILE_STATUS, GetShaderiv (Suc ?n) GL_INFO_LOG_LENGTH,
            CreateProgram, ProgramParameteri (Suc (Suc ?n)) GL_PROGRAM_SEPARABLE 1],
         next_name := Suc (Suc (Suc ?n)), shaders := shaders g @ [?n, Suc ?n],
         programs := programs g @ [Suc (Suc ?n)]\<rparr>"
    unfolding g3_def gp_def g2
    by (simp add: glCreateProgram_def glProgramParameteri_def gl_program_call_def gl_log_def Let_def)
  define g4 where "g4 = glLinkProgram (Suc (Suc ?n))
      (fold (\<lambda>shader. glAttachShader (Suc (Suc ?n)) shader) [?n, Suc ?n] g3)"
  have g4: "g4 = g\<lparr>calls := calls g @
           [CreateShader GL_VERTEX_SHADER, ShaderSource ?n (fst source), CompileShader ?n,
            GetShaderiv ?n GL_COMPILE_STATUS, GetShaderiv ?n GL_INFO_LOG_LENGTH,
            CreateShader GL_FRAGMENT_SHADER, ShaderSource (Suc ?n) (snd source),
            CompileShader (Suc ?n),
            GetShaderiv (Suc ?n) GL_COMPILE_STATUS, GetShaderiv (Suc ?n) GL_INFO_LOG_LENGTH,
            CreateProgram, ProgramParameteri (Suc (Suc ?n)) GL_PROGRAM_SEPARABLE 1,
            AttachShader (Suc (Suc ?n)) ?n, AttachShader (Suc (Suc ?n)) (Suc ?n),
            LinkProgram (Suc (Suc ?n))],
         next_name := Suc (Suc (Suc ?n)), shaders := shaders g @ [?n, Suc ?n],
         programs := programs g @ [Suc (Suc ?n)],
         attached := attached g @ [(Suc (Suc ?n), ?n), (Suc (Suc ?n), Suc ?n)]\<rparr>"
    unfolding g4_def g3 using a
    by (simp add: glAttachShader_def glLinkProgram_def gl_program_call_def gl_log_def Let_def)
  define g5 where "g5 = checkProgram ndebug (link_answer drv) (Suc (Suc ?n)) g4"
  have g5: "g5 = g4\<lparr>calls := calls g4 @
      [GetProgramiv (Suc (Suc ?n)) GL_LINK_STATUS, GetProgramiv (Suc (Suc ?n)) GL_INFO_LOG_LENGTH]\<rparr>"
    unfolding g5_def using q(3)
    by (simp add: checkProgram_def gl_log_def Let_def)
  define g6 where "g6 = glDeleteShader ?n (glDetachShader (Suc (Suc ?n)) ?n g5)"
  have g6: "g6 = g5\<lparr>calls := calls g5 @ [DetachShader (Suc (Suc ?n)) ?n, DeleteShader ?n],
      shaders := shaders g @ [Suc ?n], attached := attached g @ [(Suc (Suc ?n), Suc ?n)]\<rparr>"
    unfolding g6_def g5 g4 using a r
    by (simp add: glDetachShader_def glDeleteShader_def is_attached_def gl_log_def Let_def)
  define g7 where "g7 = glDeleteShader (Suc ?n) (glDetachShader (Suc (Suc ?n)) (Suc ?n) g6)"
  have g7: "g7 = g6\<lparr>calls := calls g6 @ [DetachShader (Suc (Suc ?n)) (Suc ?n), DeleteShader (Suc ?n)],
      shaders := shaders g, attached := attached g\<rparr>"
    unfolding g7_def g6 g5 g4 using a r
    by (simp add: glDetachShader_def glDeleteShader_def is_attached_def gl_log_def Let_def)
  have "createShaderProgram ndebug drv source g =
      ((Suc (Suc ?n), fst (glCreateProgramPipelines g7)),
       glUseProgramStages (fst (glCreateProgramPipelines g7))
         (GL_VERTEX_SHADER_BIT OR GL_FRAGMENT_SHADER_BIT)
         (Suc (Suc ?n)) (snd (glCreateProgramPipelines g7)))"
    unfolding g7_def g6_def g5_def g4_def g3_def
    by (simp only: createShaderProgram_def Let_def s1 s2 s3 split_conv fold_simps o_apply
        id_apply split_beta fst_conv snd_conv)
  also have "\<dots> = ?rhs"
    unfolding g7 g6 g5 g4
    by (simp add: glCreateProgramPipelines_def glUseProgramStages_def gl_log_def Let_def)
  finally show ?thesis .
qed

lemma render_gl:
  "gl (render now w) = (gl w)\<lparr>calls := calls (gl w) @
     [MapNamedBufferRange (buffers (loc w) TRANSFORM) 0 (blockSize (loc w))
        (GL_MAP_WRITE_BIT OR GL_MAP_INVALIDATE_BUFFER_BIT),
      write_mvp (zoom (app_state w)) (rotation (app_state w)),
      UnmapNamedBuffer (buffers (loc w) TRANSFORM),
      ClearBufferfv GL_COLOR 0 (Vec4 0.26 0.33 0.46 1),
      ClearBufferfv GL_DEPTH 0 (Vec4 1 1 1 1),
      BindProgramPipeline (pipeline (loc w)),
      BindVertexArray (vao (loc w)),
      BindTextureUnit 1 (tex (loc w)),
      BindBufferBase GL_UNIFORM_BUFFER 1 (buffers (loc w) TRANSFORM),
      BindBufferBase GL_SHADER_STORAGE_BUFFER 0 (buffers (loc w) VERTEX),
      DrawElementsInstanced GL_TRIANGLES (GLsizei_of_size (length (indices (mesh w))))
        GL_UNSIGNED_INT 1]\<rparr>"
  by (simp add: render_def draw_def tick_def gl_log_def Let_def)

lemma render_handles:
  "program (loc (render now w)) = program (loc w) \<and>
   pipeline (loc (render now w)) = pipeline (loc w)"
  by (simp add: render_def draw_def tick_def Let_def)

lemma render_mesh: "mesh (render now w) = mesh w"
  by (simp add: render_def draw_def tick_def Let_def)

lemma frame_gl: "gl (frame now events w) = gl (render now w)"
  by (simp add: frame_def Let_def)

lemma frame_loc: "loc (frame now events w) = loc (render now w)"
  by (simp add: frame_def Let_def)

lemma frames_keep_objects:
  "\<exists>xs. gl (frames fs w) = (gl w)\<lparr>calls := calls (gl w) @ xs\<rparr> \<and>
        DeleteProgram p \<notin> set xs \<and>
        program (loc (frames fs w)) = program (loc w) \<and>
        pipeline (loc (frames fs w)) = pipeline (loc w)"
proof (induction fs arbitrary: w)
  case Nil
  show ?case by (auto intro: exI [of _ "[]"])
next
  case (Cons f fs)
  let ?w = "frame (fst f) (snd f) w"
  obtain xs where xs: "gl (frames fs ?w) = (gl ?w)\<lparr>calls := calls (gl ?w) @ xs\<rparr>"
      "DeleteProgram p \<notin> set xs"
      "program (loc (frames fs ?w)) = program (loc ?w)"
      "pipeline (loc (frames fs ?w)) = pipeline (loc ?w)"
    using Cons [of ?w] by blast
  obtain ys where ys: "gl ?w = (gl w)\<lparr>calls := calls (gl w) @ ys\<rparr>" "DeleteProgram p \<notin> set ys"
    using render_gl [of "fst f" w]
    by (auto simp: frame_gl write_mvp_def split: ieee_value.splits)
  have "gl (frames (f # fs) w) = (gl w)\<lparr>calls := calls (gl w) @ (ys @ xs)\<rparr>"
    using xs(1) ys(1) by simp
  moreover have "DeleteProgram p \<notin> set (ys @ xs)" using xs(2) ys(2) by simp
  ultimately show ?case
    using xs(3,4) render_handles [of "fst f" w] by (auto simp: frame_loc)
qed

lemma issued_append: "issued g (g\<lparr>calls := calls g @ xs\<rparr>) = xs"
  by (simp add: issued_def)

lemma cleanup_program:
  assumes "program (loc w) \<in> set (programs (gl w))" and "program (loc w) \<noteq> 0"
  shows "program (loc w) \<notin> set (programs (gl (cleanup w))) \<and>
         count_list (issued (gl w) (gl (cleanup w))) (DeleteProgram (program (loc w))) = 1"
proof -
  show ?thesis
    using assms
    by (auto simp: cleanup_def glDeleteProgramPipelines_def glDeleteProgram_def gl_log_def
        gl_error_def issued_def Let_def)
qed

text \<open>
  Claim C8, amended. When neither check reports (every info log is empty or, in a build
  with \<^verbatim>\<open>NDEBUG\<close>, the compilations and the link succeed), the build detaches each of
  the two shader objects from the program once and deletes it once, raises no error, and
  returns the handle of a program object that is alive; the frames leave it alive, and
  the end of \<^verbatim>\<open>main\<close> deletes it, once.
\<close>

theorem shaders_released_program_kept:
  assumes wf: "gl_wellformed g"
    and q: "\<not> check_reports ndebug (fst (vs_answer drv)) (snd (vs_answer drv))"
      "\<not> check_reports ndebug (fst (fs_answer drv)) (snd (fs_answer drv))"
      "\<not> check_reports ndebug (fst (link_answer drv)) (snd (link_answer drv))"
  shows "let r = createShaderProgram ndebug drv source g;
             p = fst (fst r); g' = snd r;
             vs = next_name g; fs = Suc (next_name g);
             w' = frames fr (with_program r w)
         in ShaderSource vs (fst source) \<in> set (issued g g') \<and>
            ShaderSource fs (snd source) \<in> set (issued g g') \<and>
            count_list (issued g g') (DetachShader p vs) = 1 \<and>
            count_list (issued g g') (DeleteShader vs) = 1 \<and>
            count_list (issued g g') (DetachShader p fs) = 1 \<and>
            count_list (issued g g') (DeleteShader fs) = 1 \<and>
            vs \<notin> set (shaders g') \<and> fs \<notin> set (shaders g') \<and>
            \<not> is_attached vs g' \<and> \<not> is_attached fs g' \<and>
            errors g' = errors g \<and>
            p \<in> set (programs g') \<and>
            count_list (issued g g') (DeleteProgram p) = 0 \<and>
            p \<in> set (programs (gl w')) \<and>
            count_list (issued g' (gl w')) (DeleteProgram p) = 0 \<and>
            p \<notin> set (programs (gl (cleanup w'))) \<and>
            count_list (issued (gl w') (gl (cleanup w'))) (DeleteProgram p) = 1"
proof -
  let ?n = "next_name g"
  let ?r = "createShaderProgram ndebug drv source g"
  let ?p = "Suc (Suc ?n)"
  let ?w = "frames fr (with_program ?r w)"
  note b = build_quiet [OF wf q, of source]
  have a: "?n \<notin> set (shaders g)" "Suc ?n \<notin> set (shaders g)"
    "\<not> list_ex (\<lambda>a. snd a = ?n) (attached g)"
    "\<not> list_ex (\<lambda>a. snd a = Suc ?n) (attached g)"
    using wf by (auto simp: gl_wellformed_def list_all_iff list_ex_iff)
  have p: "fst (fst ?r) = ?p" by (simp add: b)
  have build: "ShaderSource ?n (fst source) \<in> set (issued g (snd ?r)) \<and>
      ShaderSource (Suc ?n) (snd source) \<in> set (issued g (snd ?r)) \<and>
      count_list (issued g (snd ?r)) (DetachShader ?p ?n) = 1 \<and>
      count_list (issued g (snd ?r)) (DeleteShader ?n) = 1 \<and>
      count_list (issued g (snd ?r)) (DetachShader ?p (Suc ?n)) = 1 \<and>
      count_list (issued g (snd ?r)) (DeleteShader (Suc ?n)) = 1 \<and>
      ?n \<notin> set (shaders (snd ?r)) \<and> Suc ?n \<notin> set (shaders (snd ?r)) \<and>
      \<not> is_attached ?n (snd ?r) \<and> \<not> is_attached (Suc ?n) (snd ?r) \<and>
      errors (snd ?r) = errors g \<and>
      ?p \<in> set (programs (snd ?r)) \<and>
      count_list (issued g (snd ?r)) (DeleteProgram ?p) = 0"
    using a by (simp add: b issued_def is_attached_def)
  obtain xs where xs: "gl ?w = (gl (with_program ?r w))\<lparr>calls := calls (gl (with_program ?r w)) @ xs\<rparr>"
      "DeleteProgram ?p \<notin> set xs"
      "program (loc ?w) = program (loc (with_program ?r w))"
    using frames_keep_objects [of fr "with_program ?r w" ?p] by blast
  have g: "gl (with_program ?r w) = snd ?r" "program (loc (with_program ?r w)) = ?p"
    by (simp_all add: with_program_def p)
  have live: "?p \<in> set (programs (gl ?w))"
    using xs(1) g(1) build by simp
  have quiet: "count_list (issued (snd ?r) (gl ?w)) (DeleteProgram ?p) = 0"
    using xs(1,2) g(1) by (simp add: issued_def)
  have "program (loc ?w) \<in> set (programs (gl ?w))" "program (loc ?w) \<noteq> 0"
    using live xs(3) g(2) by simp_all
  from cleanup_program [OF this]
  have "?p \<notin> set (programs (gl (cleanup ?w))) \<and>
        count_list (issued (gl ?w) (gl (cleanup ?w))) (DeleteProgram ?p) = 1"
    using xs(3) g(2) by simp
  with build live quiet show ?thesis
    unfolding Let_def p by blast
qed

lemma gl_initial_wellformed: "gl_wellformed gl_initial"
  by (simp add: gl_wellformed_def gl_initial_def)

theorem shaders_released_program_kept_witness:
  "gl_wellformed gl_initial \<and>
   \<not> check_reports True (fst (vs_answer quiet_driver)) (snd (vs_answer quiet_driver)) \<and>
   \<not> check_reports True (fst (fs_answer quiet_driver)) (snd (fs_answer quiet_driver)) \<and>
   \<not> check_reports True (fst (link_answer quiet_driver)) (snd (link_answer quiet_driver)) \<and>
   fst (createShaderProgram True quiet_driver (''v'', ''f'') gl_initial) = (3, 1) \<and>
   count_list (calls (snd (createShaderProgram True quiet_driver (''v'', ''f'') gl_initial)))
     (DeleteShader 1) = 1 \<and>
   count_list (calls (snd (createShaderProgram True quiet_driver (''v'', ''f'') gl_initial)))
     (DeleteShader 2) = 1 \<and>
   shaders (snd (createShaderProgram True quiet_driver (''v'', ''f'') gl_initial)) = [] \<and>
   3 \<in> set (programs (snd (createShaderProgram True quiet_driver (''v'', ''f'') gl_initial))) \<and>
   3 \<notin> set (programs (gl (cleanup (frames [(0, [])]
       (with_program (createShaderProgram True quiet_driver (''v'', ''f'') gl_initial)
          sample_world)))))"
proof -
  have q: "\<not> check_reports True (fst (vs_answer quiet_driver)) (snd (vs_answer quiet_driver))"
    "\<not> check_reports True (fst (fs_answer quiet_driver)) (snd (fs_answer quiet_driver))"
    "\<not> check_reports True (fst (link_answer quiet_driver)) (snd (link_answer quiet_driver))"
    by (simp_all add: check_reports_def quiet_driver_def)
  have n: "next_name gl_initial = 1" "calls gl_initial = []" "next_pipeline gl_initial = 1"
    by (simp_all add: gl_initial_def)
  let ?r = "createShaderProgram True quiet_driver (''v'', ''f'') gl_initial"
  have r: "fst ?r = (3, 1)" "shaders (snd ?r) = []"
    using build_quiet [OF gl_initial_wellformed q, of "(''v'', ''f'')"]
    by (simp_all add: n numeral_3_eq_3 gl_initial_def)
  have "issued gl_initial (snd ?r) = calls (snd ?r)"
    by (simp add: issued_def n)
  then show ?thesis
    using shaders_released_program_kept [OF gl_initial_wellformed q, of "(''v'', ''f'')"
        "[(0, [])]" sample_world]
      gl_initial_wellformed q r
    by (simp add: Let_def n numeral_3_eq_3 numeral_2_eq_2)
qed

lemma gl_log_eval:
  "gl_log x \<lparr>calls = c, errors = e, next_name = n, shaders = sh, programs = pr, attached = ats, flagged = fl, next_pipeline = np, pipelines = pl\<rparr> =
     \<lparr>calls = c @ [x], errors = e, next_name = n, shaders = sh, programs = pr, attached = ats, flagged = fl, next_pipeline = np, pipelines = pl\<rparr>"
  by (simp add: gl_log_def Let_def)

lemma glCreateShader_eval:
  "glCreateShader ty \<lparr>calls = c, errors = e, next_name = n, shaders = sh, programs = pr, attached = ats, flagged = fl, next_pipeline = np, pipelines = pl\<rparr> =
     (n, \<lparr>calls = c @ [CreateShader ty], errors = e, next_name = Suc n, shaders = sh @ [n], programs = pr, attached = ats, flagged = fl, next_pipeline = np, pipelines = pl\<rparr>)"
  by (simp add: glCreateShader_def gl_log_def Let_def)

lemma glCreateProgram_eval:
  "glCreateProgram \<lparr>calls = c, errors = e, next_name = n, shaders = sh, programs = pr, attached = ats, flagged = fl, next_pipeline = np, pipelines = pl\<rparr> =
     (n, \<lparr>calls = c @ [CreateProgram], errors = e, next_name = Suc n, shaders = sh, programs = pr @ [n], attached = ats, flagged = fl, next_pipeline = np, pipelines = pl\<rparr>)"
  by (simp add: glCreateProgram_def gl_log_def Let_def)

lemma glDeleteShader_eval:
  "glDeleteShader s \<lparr>calls = c, errors = e, next_name = n, shaders = sh, programs = pr, attached = ats, flagged = fl, next_pipeline = np, pipelines = pl\<rparr> =
     (if s = 0 then \<lparr>calls = c @ [DeleteShader s], errors = e, next_name = n, shaders = sh, programs = pr, attached = ats, flagged = fl, next_pipeline = np, pipelines = pl\<rparr>
      else if s \<notin> set sh then \<lparr>calls = c @ [DeleteShader s], errors = e @ [GL_INVALID_VALUE], next_name = n, shaders = sh, programs = pr, attached = ats, flagged = fl, next_pipeline = np, pipelines = pl\<rparr>
      else if list_ex (\<lambda>a. snd a = s) ats then \<lparr>calls = c @ [DeleteShader s], errors = e, next_name = n, shaders = sh, programs = pr, attached = ats, flagged = s # fl, next_pipeline = np, pipelines = pl\<rparr>
      else \<lparr>calls = c @ [DeleteShader s], errors = e, next_name = n, shaders = removeAll s sh, programs = pr, attached = ats, flagged = fl, next_pipeline = np, pipelines = pl\<rparr>)"
  by (simp add: glDeleteShader_def gl_log_def gl_error_def is_attached_def Let_def)

lemma glAttachShader_eval:
  "glAttachShader p s \<lparr>calls = c, errors = e, next_name = n, shaders = sh, programs = pr, attached = ats, flagged = fl, next_pipeline = np, pipelines = pl\<rparr> =
     (if p \<notin> set pr \<or> s \<notin> set sh then \<lparr>calls = c @ [AttachShader p s], errors = e @ [GL_INVALID_VALUE], next_name = n, shaders = sh, programs = pr, attached = ats, flagged = fl, next_pipeline = np, pipelines = pl\<rparr>
      else if (p, s) \<in> set ats then \<lparr>calls = c @ [AttachShader p s], errors = e @ [GL_INVALID_OPERATION], next_name = n, shaders = sh, programs = pr, attached = ats, flagged = fl, next_pipeline = np, pipelines = pl\<rparr>
      else \<lparr>calls = c @ [AttachShader p s], errors = e, next_name = n, shaders = sh, programs = pr, attached = ats @ [(p, s)], flagged = fl, next_pipeline = np, pipelines = pl\<rparr>)"
  by (simp add: glAttachShader_def gl_log_def gl_error_def Let_def)

lemma glDetachShader_eval:
  "glDetachShader p s \<lparr>calls = c, errors = e, next_name = n, shaders = sh, programs = pr, attached = ats, flagged = fl, next_pipeline = np, pipelines = pl\<rparr> =
     (if p \<notin> set pr \<or> s \<notin> set sh then \<lparr>calls = c @ [DetachShader p s], errors = e @ [GL_INVALID_VALUE], next_name = n, shaders = sh, programs = pr, attached = ats, flagged = fl, next_pipeline = np, pipelines = pl\<rparr>
      else if (p, s) \<notin> set ats then \<lparr>calls = c @ [DetachShader p s], errors = e @ [GL_INVALID_OPERATION], next_name = n, shaders = sh, programs = pr, attached = ats, flagged = fl, next_pipeline = np, pipelines = pl\<rparr>
      else if s \<in> set fl \<and> \<not> list_ex (\<lambda>a. snd a = s) (removeAll (p, s) ats) then \<lparr>calls = c @ [DetachShader p s], errors = e, next_name = n, shaders = removeAll s sh, programs = pr, attached = removeAll (p, s) ats, flagged = removeAll s fl, next_pipeline = np, pipelines = pl\<rparr>
      else \<lparr>calls = c @ [DetachShader p s], errors = e, next_name = n, shaders = sh, programs = pr, attached = removeAll (p, s) ats, flagged = fl, next_pipeline = np, pipelines = pl\<rparr>)"
  by (simp add: glDetachShader_def gl_log_def gl_error_def is_attached_def Let_def)

lemma glDeleteProgram_eval:
  "glDeleteProgram p \<lparr>calls = c, errors = e, next_name = n, shaders = sh, programs = pr, attached = ats, flagged = fl, next_pipeline = np, pipelines = pl\<rparr> =
     (if p = 0 then \<lparr>calls = c @ [DeleteProgram p], errors = e, next_name = n, shaders = sh, programs = pr, attached = ats, flagged = fl, next_pipeline = np, pipelines = pl\<rparr>
      else if p \<notin> set pr then \<lparr>calls = c @ [DeleteProgram p], errors = e @ [GL_INVALID_VALUE], next_name = n, shaders = sh, programs = pr, attached = ats, flagged = fl, next_pipeline = np, pipelines = pl\<rparr>
      else \<lparr>calls = c @ [DeleteProgram p], errors = e, next_name = n, shaders = filter (\<lambda>s. s \<notin> set (filter (\<lambda>s. \<not> list_ex (\<lambda>a. snd a = s) (filter (\<lambda>a. fst a \<noteq> p) ats)) fl)) sh, programs = removeAll p pr, attached = filter (\<lambda>a. fst a \<noteq> p) ats, flagged = filter (\<lambda>s. s \<notin> set (filter (\<lambda>s. \<not> list_ex (\<lambda>a. snd a = s) (filter (\<lambda>a. fst a \<noteq> p) ats)) fl)) fl, next_pipeline = np, pipelines = pl\<rparr>)"
  by (simp add: glDeleteProgram_def gl_log_def gl_error_def Let_def)

lemma glProgramParameteri_eval:
  "glProgramParameteri p pname v \<lparr>calls = c, errors = e, next_name = n, shaders = sh, programs = pr, attached = ats, flagged = fl, next_pipeline = np, pipelines = pl\<rparr> =
     (if p \<notin> set pr then \<lparr>calls = c @ [ProgramParameteri p pname v], errors = e @ [GL_INVALID_VALUE], next_name = n, shaders = sh, programs = pr, attached = ats, flagged = fl, next_pipeline = np, pipelines = pl\<rparr>
      else \<lparr>calls = c @ [ProgramParameteri p pname v], errors = e, next_name = n, shaders = sh, programs = pr, attached = ats, flagged = fl, next_pipeline = np, pipelines = pl\<rparr>)"
  by (simp add: glProgramParameteri_def gl_program_call_def gl_log_def gl_error_def Let_def)

lemma glLinkProgram_eval:
  "glLinkProgram p \<lparr>calls = c, errors = e, next_name = n, shaders = sh, programs = pr, attached = ats, flagged = fl, next_pipeline = np, pipelines = pl\<rparr> =
     (if p \<notin> set pr then \<lparr>calls = c @ [LinkProgram p], errors = e @ [GL_INVALID_VALUE], next_name = n, shaders = sh, programs = pr, attached = ats, flagged = fl, next_pipeline = np, pipelines = pl\<rparr>
      else \<lparr>calls = c @ [LinkProgram p], errors = e, next_name = n, shaders = sh, programs = pr, attached = ats, flagged = fl, next_pipeline = np, pipelines = pl\<rparr>)"
  by (simp add: glLinkProgram_def gl_program_call_def gl_log_def gl_error_def Let_def)

lemma glCreateProgramPipelines_eval:
  "glCreateProgramPipelines \<lparr>calls = c, errors = e, next_name = n, shaders = sh, programs = pr, attached = ats, flagged = fl, next_pipeline = np, pipelines = pl\<rparr> =
     (np, \<lparr>calls = c @ [CreateProgramPipelines], errors = e, next_name = n, shaders = sh, programs = pr, attached = ats, flagged = fl, next_pipeline = Suc np, pipelines = pl @ [np]\<rparr>)"
  by (simp add: glCreateProgramPipelines_def gl_log_def Let_def)

lemma glUseProgramStages_eval:
  "glUseProgramStages q stages p \<lparr>calls = c, errors = e, next_name = n, shaders = sh, programs = pr, attached = ats, flagged = fl, next_pipeline = np, pipelines = pl\<rparr> =
     (if p \<noteq> 0 \<and> p \<notin> set pr then \<lparr>calls = c @ [UseProgramStages q stages p], errors = e @ [GL_INVALID_VALUE], next_name = n, shaders = sh, programs = pr, attached = ats, flagged = fl, next_pipeline = np, pipelines = pl\<rparr>
      else \<lparr>calls = c @ [UseProgramStages q stages p], errors = e, next_name = n, shaders = sh, programs = pr, attached = ats, flagged = fl, next_pipeline = np, pipelines = pl\<rparr>)"
  by (simp add: glUseProgramStages_def gl_log_def gl_error_def Let_def)

lemmas gl_eval = gl_log_eval glCreateShader_eval glCreateProgram_eval glDeleteShader_eval glAttachShader_eval glDetachShader_eval
  glDeleteProgram_eval glProgramParameteri_eval glLinkProgram_eval glCreateProgramPipelines_eval glUseProgramStages_eval

lemma build_link_failure:
  "createShaderProgram True link_failure (''v'', ''f'') gl_initial =
     ((3, 1),
      \<lparr>calls =
         [CreateShader GL_VERTEX_SHADER, ShaderSource 1 ''v'', CompileShader 1,
          GetShaderiv 1 GL_COMPILE_STATUS, GetShaderiv 1 GL_INFO_LOG_LENGTH,
          CreateShader GL_FRAGMENT_SHADER, ShaderSource 2 ''f'', CompileShader 2,
          GetShaderiv 2 GL_COMPILE_STATUS, GetShaderiv 2 GL_INFO_LOG_LENGTH,
          CreateProgram, ProgramParameteri 3 GL_PROGRAM_SEPARABLE 1,
          AttachShader 3 1, AttachShader 3 2, LinkProgram 3,
          GetProgramiv 3 GL_LINK_STATUS, GetProgramiv 3 GL_INFO_LOG_LENGTH,
          GetProgramInfoLog 3, DeleteProgram 3,
          DetachShader 3 1, DeleteShader 1, DetachShader 3 2, DeleteShader 2,
          CreateProgramPipelines,
          UseProgramStages 1 (GL_VERTEX_SHADER_BIT OR GL_FRAGMENT_SHADER_BIT) 3],
       errors = [GL_INVALID_VALUE, GL_INVALID_VALUE, GL_INVALID_VALUE],
       next_name = 4, shaders = [], programs = [], attached = [], flagged = [],
       next_pipeline = 2, pipelines = [1]\<rparr>)"
  by (simp add: build_defs gl_eval check_reports_def link_failure_def gl_initial_def Let_def)

lemma build_vertex_warning:
  "createShaderProgram False vertex_warning (''v'', ''f'') gl_initial =
     ((3, 1),
      \<lparr>calls =
         [CreateShader GL_VERTEX_SHADER, ShaderSource 1 ''v'', CompileShader 1,
          GetShaderiv 1 GL_COMPILE_STATUS, GetShaderiv 1 GL_INFO_LOG_LENGTH,
          GetShaderInfoLog 1, DeleteShader 1,
          CreateShader GL_FRAGMENT_SHADER, ShaderSource 2 ''f'', CompileShader 2,
          GetShaderiv 2 GL_COMPILE_STATUS, GetShaderiv 2 GL_INFO_LOG_LENGTH,
          CreateProgram, ProgramParameteri 3 GL_PROGRAM_SEPARABLE 1,
          AttachShader 3 1, AttachShader 3 2, LinkProgram 3,
          GetProgramiv 3 GL_LINK_STATUS, GetProgramiv 3 GL_INFO_LOG_LENGTH,
          DetachShader 3 1, DeleteShader 1, DetachShader 3 2, DeleteShader 2,
          CreateProgramPipelines,
          UseProgramStages 1 (GL_VERTEX_SHADER_BIT OR GL_FRAGMENT_SHADER_BIT) 3],
       errors = [GL_INVALID_VALUE, GL_INVALID_VALUE, GL_INVALID_VALUE],
       next_name = 4, shaders = [], programs = [3], attached = [], flagged = [],
       next_pipeline = 2, pipelines = [1]\<rparr>)"
  by (simp add: build_defs gl_eval check_reports_def vertex_warning_def gl_initial_def Let_def)

text \<open>
  Claim C8 as stated fails. In a build with \<^verbatim>\<open>NDEBUG\<close>, when the link fails with a
  message, \<^verbatim>\<open>checkProgram\<close> deletes the program, and the handle that the build returns
  refers to no object. In a build without \<^verbatim>\<open>NDEBUG\<close>, when the vertex shader compiles
  with a warning, \<^verbatim>\<open>checkShader\<close> deletes the shader; the build then fails to attach
  and to detach it and deletes it a second time, and each of the three calls raises
  \<^verbatim>\<open>GL_INVALID_VALUE\<close>.
\<close>

theorem build_deletes_reported_objects:
  "check_reports True (fst (link_answer link_failure)) (snd (link_answer link_failure)) \<and>
   fst (createShaderProgram True link_failure (''v'', ''f'') gl_initial) = (3, 1) \<and>
   3 \<notin> set (programs (snd (createShaderProgram True link_failure (''v'', ''f'') gl_initial))) \<and>
   count_list (calls (snd (createShaderProgram True link_failure (''v'', ''f'') gl_initial)))
     (DeleteProgram 3) = 1 \<and>
   check_reports False (fst (vs_answer vertex_warning)) (snd (vs_answer vertex_warning)) \<and>
   count_list (calls (snd (createShaderProgram False vertex_warning (''v'', ''f'') gl_initial)))
     (DeleteShader 1) = 2 \<and>
   errors (snd (createShaderProgram False vertex_warning (''v'', ''f'') gl_initial)) =
     [GL_INVALID_VALUE, GL_INVALID_VALUE, GL_INVALID_VALUE]"
proof -
  have "check_reports True (fst (link_answer link_failure)) (snd (link_answer link_failure))"
    "check_reports False (fst (vs_answer vertex_warning)) (snd (vs_answer vertex_warning))"
    by (simp_all add: check_reports_def link_failure_def vertex_warning_def)
  then show ?thesis
    by (simp add: build_link_failure build_vertex_warning)
qed

text \<open>
  Claim C7. One pass of the loop, with zoom 40, no rotation and a mesh of one triangle,
  issues one draw call, with the index count 3 and the instance count 1, and uploads the
  camera matrix of that zoom and rotation; without events it leaves zoom and rotation as
  they are. The rendering part of a pass never changes the camera state, and a pass
  changes it only through the callbacks of the dispatched events. The mesh stays as it is.
\<close>

theorem frame_draws_once:
  assumes "zoom (app_state w) = Finite 40" and "rotation (app_state w) = Vec2 0 0"
    and "length (indices (mesh w)) = 3"
  shows "filter is_draw (issued (gl w) (gl (frame now [] w))) =
           [DrawElementsInstanced GL_TRIANGLES 3 GL_UNSIGNED_INT 1] \<and>
         WriteMVP (camera 40 (Vec2 0 0)) \<in> set (issued (gl w) (gl (frame now [] w))) \<and>
         zoom (app_state (frame now [] w)) = Finite 40 \<and>
         rotation (app_state (frame now [] w)) = Vec2 0 0 \<and>
         app_state (render now w) = app_state w \<and>
         app_state (frame now events w) = glfwPollEvents events (app_state w) \<and>
         mesh (frame now events w) = mesh w"
proof -
  have "GLsizei_of_size 3 = 3" by (simp add: GLsizei_of_size_def)
  then show ?thesis
    using assms
    by (simp add: frame_def Let_def render_gl render_app render_mesh issued_def write_mvp_def)
qed

theorem frame_draws_once_witness:
  "zoom (app_state sample_world) = Finite 40 \<and> rotation (app_state sample_world) = Vec2 0 0 \<and>
   length (indices (mesh sample_world)) = 3 \<and>
   loadModel triangle_mesh empty_model = Inr (mesh sample_world) \<and>
   filter is_draw (calls (gl (frame 0 [] sample_world))) =
     [DrawElementsInstanced GL_TRIANGLES 3 GL_UNSIGNED_INT 1] \<and>
   zoom (app_state (frame 0 [] sample_world)) = Finite 40 \<and>
   rotation (app_state (frame 0 [] sample_world)) = Vec2 0 0"
proof -
  have a: "zoom (app_state sample_world) = Finite 40" "rotation (app_state sample_world) = Vec2 0 0"
    "length (indices (mesh sample_world)) = 3"
    by (simp_all add: sample_world_def initial_app_def)
  have "calls (gl sample_world) = []"
    by (simp add: sample_world_def gl_initial_def)
  then have "issued (gl sample_world) (gl (frame 0 [] sample_world)) =
      calls (gl (frame 0 [] sample_world))"
    by (simp add: issued_def)
  moreover have "loadModel triangle_mesh empty_model = Inr (mesh sample_world)"
    using triangle_once by (simp add: sample_world_def)
  ultimately show ?thesis
    using frame_draws_once [OF a, of 0] a by simp
qed

end
